theory Spec2Isabelle
  imports Complex_Main "HOL-Library.List_Lexorder" "HOL-Library.Product_Lexorder"
begin

section \<open>Python values\<close>

text \<open>
  A Python \<^verbatim>\<open>str\<close> is a list of Unicode code points, so that \<^verbatim>\<open>len\<close> counts
  characters and comparison is lexicographic by code point, as in Python. ASCII
  literals are written through \<open>asc\<close>; other characters are given by their code point.
\<close>

type_synonym ustring = "nat list"

definition asc :: "string \<Rightarrow> ustring" where
  "asc s = map of_char s"

text \<open>The exceptions that the modelled functions can raise.\<close>

datatype py_exc = SyntaxError | NameError | TypeError | ZeroDivisionError | ValueError
  | OverflowError | IndexError

text \<open>
  A Python \<^verbatim>\<open>float\<close> is a binary double. A finite double is given by the real number
  it denotes (the sign of a zero is not kept); the other values are the two infinities and
  not-a-number.
\<close>

datatype pyfloat = Fin real | PInf | NInf | NaN

text \<open>
  The result of an arithmetic operation is the exact result rounded to the nearest double,
  ties to the even significand: 53 bits above \<open>2 ^ - 1022\<close>, multiples of \<open>2 ^ - 1074\<close>
  below, an infinity when the rounded value reaches \<open>2 ^ 1024\<close>.
\<close>

definition round_half_even :: "real \<Rightarrow> int" where
  "round_half_even x =
     (let f = \<lfloor>x\<rfloor>; d = x - of_int f
      in if d < 1 / 2 then f else if 1 / 2 < d then f + 1 else if even f then f else f + 1)"

definition pow2 :: "int \<Rightarrow> real" where
  "pow2 e = (if 0 \<le> e then 2 ^ nat e else 1 / 2 ^ nat (- e))"

text \<open>
  The binary exponent of \<open>a\<close>, by bisection: the \<open>e\<close> between \<open>lo\<close> and \<open>hi\<close>
  with \<open>pow2 e \<le> a < pow2 (e + 1)\<close>, or \<open>lo\<close> when \<open>a\<close> is smaller.
\<close>

fun binary_exponent :: "nat \<Rightarrow> int \<Rightarrow> int \<Rightarrow> real \<Rightarrow> int" where
  "binary_exponent 0 lo hi a = lo"
| "binary_exponent (Suc n) lo hi a =
     (if hi - lo \<le> 1 then lo
      else let mid = (lo + hi) div 2
           in if pow2 mid \<le> a then binary_exponent n mid hi a else binary_exponent n lo mid a)"

definition round_double :: "real \<Rightarrow> pyfloat" where
  "round_double x =
     (let e = binary_exponent 12 (- 1022) 1024 \<bar>x\<bar>;
          ulp = pow2 (e - 52);
          y = of_int (round_half_even (x / ulp)) * ulp
      in if 2 ^ 1024 \<le> \<bar>y\<bar> then (if 0 < x then PInf else NInf) else Fin y)"

fun f_neg :: "pyfloat \<Rightarrow> pyfloat" where
  "f_neg (Fin a) = Fin (- a)"
| "f_neg PInf = NInf"
| "f_neg NInf = PInf"
| "f_neg NaN = NaN"

fun f_add :: "pyfloat \<Rightarrow> pyfloat \<Rightarrow> pyfloat" where
  "f_add NaN _ = NaN"
| "f_add _ NaN = NaN"
| "f_add (Fin a) (Fin b) = round_double (a + b)"
| "f_add PInf NInf = NaN"
| "f_add NInf PInf = NaN"
| "f_add PInf _ = PInf"
| "f_add _ PInf = PInf"
| "f_add NInf _ = NInf"
| "f_add _ NInf = NInf"

definition f_sub :: "pyfloat \<Rightarrow> pyfloat \<Rightarrow> pyfloat" where
  "f_sub a b = f_add a (f_neg b)"

text \<open>The sign of a float that is not a NaN, and the infinity of a sign.\<close>

fun f_sign :: "pyfloat \<Rightarrow> int" where
  "f_sign (Fin a) = (if a < 0 then - 1 else if 0 < a then 1 else 0)"
| "f_sign PInf = 1"
| "f_sign NInf = - 1"
| "f_sign NaN = 0"

definition signed_inf :: "int \<Rightarrow> pyfloat" where
  "signed_inf s = (if s = 0 then NaN else if 0 < s then PInf else NInf)"

fun f_mul :: "pyfloat \<Rightarrow> pyfloat \<Rightarrow> pyfloat" where
  "f_mul (Fin a) (Fin b) = round_double (a * b)"
| "f_mul a b = (if a = NaN \<or> b = NaN then NaN else signed_inf (f_sign a * f_sign b))"

text \<open>Division by a float that is not zero.\<close>

fun f_div :: "pyfloat \<Rightarrow> pyfloat \<Rightarrow> pyfloat" where
  "f_div (Fin a) (Fin b) = round_double (a / b)"
| "f_div (Fin a) b = (if b = NaN then NaN else Fin 0)"
| "f_div a (Fin b) = (if a = NaN then NaN else signed_inf (f_sign a * f_sign (Fin b)))"
| "f_div a b = NaN"

fun f_abs :: "pyfloat \<Rightarrow> pyfloat" where
  "f_abs (Fin a) = Fin \<bar>a\<bar>"
| "f_abs PInf = PInf"
| "f_abs NInf = PInf"
| "f_abs NaN = NaN"

fun f_lt :: "pyfloat \<Rightarrow> pyfloat \<Rightarrow> bool" where
  "f_lt NaN _ = False"
| "f_lt _ NaN = False"
| "f_lt (Fin a) (Fin b) = (a < b)"
| "f_lt _ NInf = False"
| "f_lt NInf _ = True"
| "f_lt PInf _ = False"
| "f_lt _ PInf = True"

fun f_le :: "pyfloat \<Rightarrow> pyfloat \<Rightarrow> bool" where
  "f_le NaN _ = False"
| "f_le _ NaN = False"
| "f_le (Fin a) (Fin b) = (a \<le> b)"
| "f_le NInf _ = True"
| "f_le _ PInf = True"
| "f_le _ NInf = False"
| "f_le PInf _ = False"

text \<open>
  \<^verbatim>\<open>sum(...)\<close> starts from the integer 0 and adds from the left, rounding after every
  addition (CPython up to version 3.11).
\<close>

definition py_sum :: "pyfloat list \<Rightarrow> pyfloat" where
  "py_sum xs = foldl f_add (Fin 0) xs"

subsection \<open>String methods\<close>

text \<open>\<^verbatim>\<open>str.isspace\<close> of one character: the code points Python treats as whitespace.\<close>

definition py_isspace :: "nat \<Rightarrow> bool" where
  "py_isspace c = ((9 \<le> c \<and> c \<le> 13) \<or> (28 \<le> c \<and> c \<le> 32) \<or> c = 133 \<or> c = 160
     \<or> c = 5760 \<or> (8192 \<le> c \<and> c \<le> 8202) \<or> c = 8232 \<or> c = 8233 \<or> c = 8239
     \<or> c = 8287 \<or> c = 12288)"

definition py_lstrip :: "ustring \<Rightarrow> ustring" where
  "py_lstrip s = dropWhile py_isspace s"

definition py_strip :: "ustring \<Rightarrow> ustring" where
  "py_strip s = rev (dropWhile py_isspace (rev (dropWhile py_isspace s)))"

text \<open>\<^verbatim>\<open>s.lstrip(c)\<close> and \<^verbatim>\<open>s.replace(c, '')\<close> for a one-character string \<open>c\<close>.\<close>

definition lstrip_char :: "nat \<Rightarrow> ustring \<Rightarrow> ustring" where
  "lstrip_char c s = dropWhile (\<lambda>x. x = c) s"

definition remove_char :: "nat \<Rightarrow> ustring \<Rightarrow> ustring" where
  "remove_char c s = filter (\<lambda>x. x \<noteq> c) s"

definition py_endswith :: "ustring \<Rightarrow> ustring \<Rightarrow> bool" where
  "py_endswith s suf = (length suf \<le> length s \<and> drop (length s - length suf) s = suf)"

definition py_startswith :: "ustring \<Rightarrow> ustring \<Rightarrow> bool" where
  "py_startswith s pre = (take (length pre) s = pre)"

fun py_join :: "ustring \<Rightarrow> ustring list \<Rightarrow> ustring" where
  "py_join sep [] = []"
| "py_join sep [x] = x"
| "py_join sep (x # y # ys) = x @ sep @ py_join sep (y # ys)"

text \<open>\<^verbatim>\<open>str(n)\<close> of an integer.\<close>

fun dec_digits :: "nat \<Rightarrow> ustring" where
  "dec_digits n = (if n < 10 then [48 + n] else dec_digits (n div 10) @ [48 + n mod 10])"

definition str_int :: "int \<Rightarrow> ustring" where
  "str_int n = (if n < 0 then 45 # dec_digits (nat (- n)) else dec_digits (nat n))"

text \<open>
  A set is iterated in an order that depends on the hashes of its elements. The order is
  a parameter \<open>h\<close> of every function that iterates over a set: \<open>h S\<close> is the list in which
  the run enumerates \<open>S\<close>. A possible order lists every element once.
\<close>

definition iteration_order :: "('a set \<Rightarrow> 'a list) \<Rightarrow> bool" where
  "iteration_order h = (\<forall>S. finite S \<longrightarrow> set (h S) = S \<and> distinct (h S))"

text \<open>
  A dictionary keeps its keys in insertion order: an association list with one entry per
  key. \<open>dict_append k v d\<close> is \<^verbatim>\<open>d.setdefault(k, []).append(v)\<close>.
\<close>

fun dict_append :: "'k \<Rightarrow> 'v \<Rightarrow> ('k \<times> 'v list) list \<Rightarrow> ('k \<times> 'v list) list" where
  "dict_append k v [] = [(k, [v])]"
| "dict_append k v ((k', vs) # d) =
     (if k = k' then (k', vs @ [v]) # d else (k', vs) # dict_append k v d)"

subsection \<open>Grid cells\<close>

text \<open>
  A cell of a raw grid is empty (\<^verbatim>\<open>None\<close>), a string, an integer or a float.
  \<^verbatim>\<open>str\<close> of a finite float is its shortest decimal representation, which depends on
  the binary rounding that the model leaves out: it is the parameter \<open>fr\<close> of every
  function that prints a cell.
\<close>

datatype cell = CNone | CStr ustring | CInt int | CFloat pyfloat

fun py_str :: "(real \<Rightarrow> ustring) \<Rightarrow> cell \<Rightarrow> ustring" where
  "py_str fr CNone = asc ''None''"
| "py_str fr (CStr s) = s"
| "py_str fr (CInt n) = str_int n"
| "py_str fr (CFloat (Fin r)) = fr r"
| "py_str fr (CFloat NaN) = asc ''nan''"
| "py_str fr (CFloat PInf) = asc ''inf''"
| "py_str fr (CFloat NInf) = asc ''-inf''"

text \<open>The truth value of a cell in a condition.\<close>

fun truthy :: "cell \<Rightarrow> bool" where
  "truthy CNone = False"
| "truthy (CStr s) = (s \<noteq> [])"
| "truthy (CInt n) = (n \<noteq> 0)"
| "truthy (CFloat (Fin r)) = (r \<noteq> 0)"
| "truthy (CFloat _) = True"

text \<open>
  \<^verbatim>\<open>str.lower\<close> on the ASCII letters; the other cased letters of Unicode are left as they
  are. \<^verbatim>\<open>\d\<close> is read as the ASCII digits.
\<close>

definition lower_char :: "nat \<Rightarrow> nat" where
  "lower_char c = (if 65 \<le> c \<and> c \<le> 90 then c + 32 else c)"

definition py_lower :: "ustring \<Rightarrow> ustring" where
  "py_lower s = map lower_char s"

definition is_digit :: "nat \<Rightarrow> bool" where
  "is_digit c = (48 \<le> c \<and> c \<le> 57)"

text \<open>\<^verbatim>\<open>sub in s\<close> for strings.\<close>

fun py_contains :: "ustring \<Rightarrow> ustring \<Rightarrow> bool" where
  "py_contains [] sub = (sub = [])"
| "py_contains (c # cs) sub = (py_startswith (c # cs) sub \<or> py_contains cs sub)"

text \<open>
  Indexing a list with an integer: a negative index counts from the end, an index out of
  range raises.
\<close>

definition py_index :: "'a list \<Rightarrow> int \<Rightarrow> py_exc + 'a" where
  "py_index xs i =
     (if 0 \<le> i \<and> i < int (length xs) then Inr (xs ! nat i)
      else if i < 0 \<and> - int (length xs) \<le> i then Inr (xs ! nat (int (length xs) + i))
      else Inl IndexError)"

subsection \<open>Regular expressions\<close>

text \<open>
  The constructs that the patterns of the program use, matched as \<^verbatim>\<open>re\<close> does: leftmost
  start, greedy repetition and option, backtracking into them, one capture group.
\<close>

datatype regex = Cls "nat \<Rightarrow> bool" | Opt regex | StarC "nat \<Rightarrow> bool" | Seq regex regex | Grp regex

fun star_match :: "(nat \<Rightarrow> bool) \<Rightarrow> ustring \<Rightarrow> (ustring \<Rightarrow> 'a option) \<Rightarrow> 'a option" where
  "star_match P [] k = k []"
| "star_match P (c # cs) k =
     (if P c then (case star_match P cs k of Some r \<Rightarrow> Some r | None \<Rightarrow> k (c # cs))
      else k (c # cs))"

fun rmatch :: "regex \<Rightarrow> ustring \<times> ustring option
    \<Rightarrow> (ustring \<times> ustring option \<Rightarrow> 'a option) \<Rightarrow> 'a option" where
  "rmatch (Cls P) (s, g) k =
     (case s of [] \<Rightarrow> None | c # cs \<Rightarrow> if P c then k (cs, g) else None)"
| "rmatch (Opt r) st k = (case rmatch r st k of Some x \<Rightarrow> Some x | None \<Rightarrow> k st)"
| "rmatch (StarC P) (s, g) k = star_match P s (\<lambda>s'. k (s', g))"
| "rmatch (Seq a b) st k = rmatch a st (\<lambda>st'. rmatch b st' k)"
| "rmatch (Grp r) (s, g) k =
     rmatch r (s, g) (\<lambda>(s', g'). k (s', Some (take (length s - length s') s)))"

text \<open>\<^verbatim>\<open>re.search(pattern, s)\<close>: the group of the first match, trying the starts from the left.\<close>

fun re_search :: "regex \<Rightarrow> ustring \<Rightarrow> ustring option" where
  "re_search r [] = rmatch r ([], None) (\<lambda>(s', g). g)"
| "re_search r (c # cs) =
     (case rmatch r (c # cs, None) (\<lambda>(s', g). g) of
        Some g \<Rightarrow> Some g
      | None \<Rightarrow> re_search r cs)"

definition Chr :: "nat \<Rightarrow> regex" where
  "Chr c = Cls (\<lambda>x. x = c)"

definition PlusC :: "(nat \<Rightarrow> bool) \<Rightarrow> regex" where
  "PlusC P = Seq (Cls P) (StarC P)"

fun seqs :: "regex list \<Rightarrow> regex" where
  "seqs [] = StarC (\<lambda>x. False)"
| "seqs [r] = r"
| "seqs (r # rs) = Seq r (seqs rs)"

section \<open>utils.py\<close>

text \<open>
  \<open>clean_part_number\<close> on a \<^verbatim>\<open>str\<close> argument (the type of \<open>part_id\<close>,
  \<open>main_part_id\<close> and the substitute ids): drop a final \<^verbatim>\<open>.0\<close>, strip, drop leading
  apostrophes and backticks, delete every apostrophe, delete control and zero-width
  characters, strip again.
\<close>

definition invisible_part_char :: "nat \<Rightarrow> bool" where
  "invisible_part_char c = (c \<le> 31 \<or> (127 \<le> c \<and> c \<le> 159) \<or> (8203 \<le> c \<and> c \<le> 8205)
     \<or> c = 65279 \<or> c = 160)"

definition clean_text :: "ustring \<Rightarrow> ustring" where
  "clean_text s0 =
     (let s1 = py_strip s0;
          s2 = lstrip_char 96 (lstrip_char 39 (lstrip_char 39 (lstrip_char 39 s1)));
          s3 = remove_char 39 (remove_char 39 (remove_char 39 s2));
          s4 = filter (\<lambda>c. \<not> invisible_part_char c) s3
      in py_strip s4)"

definition clean_part_number_str :: "ustring \<Rightarrow> ustring" where
  "clean_part_number_str v =
     clean_text (if py_endswith v (asc ''.0'') then take (length v - 2) v else v)"

text \<open>\<open>int(value)\<close> of a finite float truncates towards zero.\<close>

definition trunc_real :: "real \<Rightarrow> int" where
  "trunc_real r = (if 0 \<le> r then \<lfloor>r\<rfloor> else \<lceil>r\<rceil>)"

text \<open>
  \<^verbatim>\<open>f"{value:.2f}"\<close>: the sign, then the value rounded to two decimals, ties to even.
\<close>

definition fmt_2f :: "real \<Rightarrow> ustring" where
  "fmt_2f r =
     (let m = nat (round_half_even (\<bar>r\<bar> * 100))
      in (if r < 0 then [45] else []) @ dec_digits (m div 100) @ [46]
         @ [48 + (m mod 100) div 10, 48 + m mod 10])"

fun format_number :: "pyfloat \<Rightarrow> py_exc + ustring" where
  "format_number (Fin r) =
     (if r = of_int (trunc_real r) then Inr (str_int (trunc_real r)) else Inr (fmt_2f r))"
| "format_number NaN = Inl ValueError"
| "format_number PInf = Inl OverflowError"
| "format_number NInf = Inl OverflowError"

definition merge_box_numbers :: "(ustring set \<Rightarrow> ustring list) \<Rightarrow> ustring list \<Rightarrow> ustring" where
  "merge_box_numbers h box_list =
     (if box_list = [] then asc ''-''
      else
        let unique_boxes =
              sort_key (\<lambda>x. (length x, x)) (h (set (filter (\<lambda>b. b \<noteq> []) box_list)))
        in if unique_boxes = [] then asc ''-'' else py_join (asc '', '') unique_boxes)"

section \<open>config.py\<close>

datatype JudgmentStatus = OK | OK_WITH_SUB | NG_QTY_DIFF | NG_MISSING | NG_NOT_IN_BOM

text \<open>The string constants of \<open>JudgmentStatus\<close>.\<close>

fun status_str :: "JudgmentStatus \<Rightarrow> ustring" where
  "status_str OK = asc ''OK''"
| "status_str OK_WITH_SUB = asc ''OK ('' @ [21547, 26367, 26009] @ asc '')''"
| "status_str NG_QTY_DIFF = asc ''NG ('' @ [25968, 37327, 24046, 24322] @ asc '')''"
| "status_str NG_MISSING = asc ''NG ('' @ [32570, 26009] @ asc '')''"
| "status_str NG_NOT_IN_BOM = asc ''NG (BOM'' @ [26080] @ asc '')''"

datatype ParseMode = STANDARD | STREAM

record MappingConfig =
  header_row :: int
  part_col :: int
  qty_col :: int
  box_col :: "int option"
  name_col :: "int option"
  substitute_col :: "int option"
  stream_parse :: bool

text \<open>\<open>CHINESE_NUM_MAP\<close>: the value of each numeral character.\<close>

definition CHINESE_NUM_MAP :: "(nat \<times> nat) list" where
  "CHINESE_NUM_MAP =
     [(38646, 0), (19968, 1), (20108, 2), (19977, 3), (22235, 4),
      (20116, 5), (20845, 6), (19971, 7), (20843, 8), (20061, 9),
      (21313, 10), (30334, 100), (21315, 1000),
      (22777, 1), (36144, 2), (21441, 3), (32902, 4), (20237, 5),
      (38470, 6), (26578, 7), (25420, 8), (29590, 9), (25342, 10)]"

text \<open>
  The characters of the class in the second box pattern: the numerals one to nine, ten and
  hundred.
\<close>

definition box_numeral_char :: "nat \<Rightarrow> bool" where
  "box_numeral_char c = (c \<in> set [19968, 20108, 19977, 22235, 20116, 20845, 19971, 20843,
     20061, 21313, 30334])"

text \<open>
  \<open>BOX_MARKER_PATTERNS\<close>. 31532, 21495 and 31665 are the characters of "number", "mark"
  and "box" in the markers; 35 and 8470 are the number signs.
\<close>

definition BOX_MARKER_PATTERNS :: "regex list" where
  "BOX_MARKER_PATTERNS =
     [seqs [Opt (Chr 31532), StarC py_isspace, Grp (PlusC is_digit), StarC py_isspace,
            Opt (Chr 21495), StarC py_isspace, Chr 31665],
      seqs [Opt (Chr 31532), StarC py_isspace, Grp (PlusC box_numeral_char), StarC py_isspace,
            Opt (Chr 21495), StarC py_isspace, Chr 31665],
      seqs [Cls (\<lambda>c. c = 66 \<or> c = 98), Chr 111, Chr 120, StarC py_isspace,
            Opt (Cls (\<lambda>c. c = 35 \<or> c = 8470)), StarC py_isspace, Grp (PlusC is_digit)],
      seqs [Cls (\<lambda>c. c = 67 \<or> c = 99), Chr 97, Chr 114, Chr 116, Chr 111, Chr 110,
            StarC py_isspace, Opt (Cls (\<lambda>c. c = 35 \<or> c = 8470)), StarC py_isspace,
            Grp (PlusC is_digit)]]"

definition HEADER_SCAN_ROWS :: int where
  "HEADER_SCAN_ROWS = 20"

definition MIN_HEADER_SCORE :: int where
  "MIN_HEADER_SCORE = 2"

section \<open>utils.py: recognising text\<close>

text \<open>\<^verbatim>\<open>str(cell) if cell else ''\<close>, and a row joined with spaces.\<close>

definition cell_text :: "(real \<Rightarrow> ustring) \<Rightarrow> cell \<Rightarrow> ustring" where
  "cell_text fr c = (if truthy c then py_str fr c else [])"

definition row_text :: "(real \<Rightarrow> ustring) \<Rightarrow> cell list \<Rightarrow> ustring" where
  "row_text fr row = py_join (asc '' '') (map (cell_text fr) row)"

text \<open>
  \<open>clean_part_number\<close> on any cell. A float that equals its integer part is printed as
  that integer; \<^verbatim>\<open>int\<close> of an infinite float raises.
\<close>

fun clean_part_number :: "(real \<Rightarrow> ustring) \<Rightarrow> cell \<Rightarrow> py_exc + ustring" where
  "clean_part_number fr CNone = Inr []"
| "clean_part_number fr (CFloat NaN) = Inr []"
| "clean_part_number fr (CFloat PInf) = Inl OverflowError"
| "clean_part_number fr (CFloat NInf) = Inl OverflowError"
| "clean_part_number fr (CFloat (Fin r)) =
     Inr (clean_text (if r = of_int (trunc_real r) then str_int (trunc_real r) else fr r))"
| "clean_part_number fr c = Inr (clean_part_number_str (py_str fr c))"

definition invisible_char :: "nat \<Rightarrow> bool" where
  "invisible_char c = (c \<le> 31 \<or> (127 \<le> c \<and> c \<le> 159) \<or> (8203 \<le> c \<and> c \<le> 8205)
     \<or> c = 65279)"

fun normalize_box_number :: "(real \<Rightarrow> ustring) \<Rightarrow> cell \<Rightarrow> py_exc + ustring" where
  "normalize_box_number fr CNone = Inr []"
| "normalize_box_number fr (CFloat NaN) = Inr []"
| "normalize_box_number fr (CFloat PInf) = Inl OverflowError"
| "normalize_box_number fr (CFloat NInf) = Inl OverflowError"
| "normalize_box_number fr (CFloat (Fin r)) =
     Inr (py_strip (filter (\<lambda>c. \<not> invisible_char c)
            (if r = of_int (trunc_real r) then str_int (trunc_real r) else py_strip (fr r))))"
| "normalize_box_number fr c =
     (let box_str = py_strip (py_str fr c);
          box_str = (if py_endswith box_str (asc ''.0'')
                     then take (length box_str - 2) box_str else box_str)
      in Inr (py_strip (filter (\<lambda>c. \<not> invisible_char c) box_str)))"

text \<open>The maximal runs of digits of a text, from left to right (\<^verbatim>\<open>re.findall(r'\d+', text)\<close>).\<close>

fun digit_runs :: "ustring \<Rightarrow> ustring \<Rightarrow> ustring list" where
  "digit_runs cur [] = (if cur = [] then [] else [cur])"
| "digit_runs cur (c # cs) =
     (if is_digit c then digit_runs (cur @ [c]) cs
      else (if cur = [] then [] else [cur]) @ digit_runs [] cs)"

fun dedup_ids :: "ustring list \<Rightarrow> ustring set \<Rightarrow> ustring list" where
  "dedup_ids [] seen = []"
| "dedup_ids (m # ms) seen =
     (if m \<notin> seen \<and> 3 \<le> length m then m # dedup_ids ms (insert m seen) else dedup_ids ms seen)"

definition extract_substitute_ids :: "(real \<Rightarrow> ustring) \<Rightarrow> cell \<Rightarrow> ustring list" where
  "extract_substitute_ids fr substitute_text =
     (if substitute_text = CNone then []
      else
        let text = py_strip (py_str fr substitute_text)
        in if text = [] \<or> py_lower text \<in> set [asc ''nan'', asc ''none'', [26080], asc ''-'',
                                                  [], asc ''null'']
           then []
           else dedup_ids (digit_runs [] text) {})"

text \<open>
  \<open>calculate_header_score\<close>: the number of keywords, counted once per lower-case form,
  that occur in the lower-case text of the row.
\<close>

fun score_loop :: "ustring \<Rightarrow> ustring list \<Rightarrow> nat \<Rightarrow> ustring set \<Rightarrow> nat" where
  "score_loop row_text_lower [] score matched_keywords = score"
| "score_loop row_text_lower (keyword # rest) score matched_keywords =
     (let kw_lower = py_lower keyword
      in if py_contains row_text_lower kw_lower \<and> kw_lower \<notin> matched_keywords
         then score_loop row_text_lower rest (score + 1) (insert kw_lower matched_keywords)
         else score_loop row_text_lower rest score matched_keywords)"

definition calculate_header_score :: "(real \<Rightarrow> ustring) \<Rightarrow> cell list \<Rightarrow> ustring list \<Rightarrow> nat" where
  "calculate_header_score fr row keywords =
     (if row = [] then 0
      else score_loop (py_lower (row_text fr row)) keywords 0 {})"

definition non_empty_cells :: "(real \<Rightarrow> ustring) \<Rightarrow> cell list \<Rightarrow> nat" where
  "non_empty_cells fr row =
     length (filter (\<lambda>c. c \<noteq> CNone \<and> py_strip (py_str fr c) \<noteq> []) row)"

text \<open>
  The loop of \<open>smart_find_header_row\<close> over the rows to search, with the index of the
  current row and the best row and score so far.
\<close>

fun header_loop :: "(real \<Rightarrow> ustring) \<Rightarrow> ustring list \<Rightarrow> cell list list \<Rightarrow> nat
    \<Rightarrow> nat option \<times> nat \<Rightarrow> nat option \<times> nat" where
  "header_loop fr keywords [] row_idx best = best"
| "header_loop fr keywords (row # rest) row_idx (best_row_idx, best_score) =
     (if row = [] then header_loop fr keywords rest (row_idx + 1) (best_row_idx, best_score)
      else if non_empty_cells fr row < 2
      then header_loop fr keywords rest (row_idx + 1) (best_row_idx, best_score)
      else
        let score = calculate_header_score fr row keywords
        in if best_score < score
           then header_loop fr keywords rest (row_idx + 1) (Some row_idx, score)
           else header_loop fr keywords rest (row_idx + 1) (best_row_idx, best_score))"

definition smart_find_header_row ::
  "(real \<Rightarrow> ustring) \<Rightarrow> cell list list \<Rightarrow> ustring list \<Rightarrow> int \<Rightarrow> int \<Rightarrow> nat option \<times> nat" where
  "smart_find_header_row fr data keywords max_rows min_score =
     (if data = [] \<or> keywords = [] then (None, 0)
      else
        let search_rows = min (int (length data)) max_rows;
            (best_row_idx, best_score) =
               header_loop fr keywords (take (nat search_rows) data) 0 (None, 0)
        in if min_score \<le> int best_score then (best_row_idx, best_score) else (None, 0))"

text \<open>
  \<open>chinese_to_arabic\<close>. A string is a key of \<open>CHINESE_NUM_MAP\<close> when it is one
  character of the table.
\<close>

definition in_num_map :: "ustring \<Rightarrow> nat option" where
  "in_num_map s = (case s of [c] \<Rightarrow> map_of CHINESE_NUM_MAP c | _ \<Rightarrow> None)"

fun numeral_loop :: "ustring \<Rightarrow> nat \<Rightarrow> nat \<Rightarrow> nat option" where
  "numeral_loop [] result temp = Some (result + temp)"
| "numeral_loop (char # rest) result temp =
     (case map_of CHINESE_NUM_MAP char of
        None \<Rightarrow> None
      | Some num \<Rightarrow>
          if num = 10 then numeral_loop rest (result + (if temp = 0 then 1 else temp) * 10) 0
          else if num = 100 then numeral_loop rest (result + (if temp = 0 then 1 else temp) * 100) 0
          else numeral_loop rest result num)"

definition chinese_to_arabic :: "ustring \<Rightarrow> nat option" where
  "chinese_to_arabic chinese_str0 =
     (if chinese_str0 = [] then None
      else
        let chinese_str = py_strip chinese_str0
        in if length chinese_str = 1 \<and> in_num_map chinese_str \<noteq> None
           then in_num_map chinese_str
           else if py_startswith chinese_str [21313] \<and> length chinese_str = 1 then Some 10
           else if py_startswith chinese_str [21313] \<and> in_num_map (tl chinese_str) \<noteq> None
           then Some (10 + the (in_num_map (tl chinese_str)))
           else
             (case numeral_loop chinese_str 0 0 of
                None \<Rightarrow> None
              | Some result \<Rightarrow> if 0 < result then Some result else None))"

text \<open>
  \<^verbatim>\<open>re.match(r'^[...]+$', box_num)\<close> for the class of the box numerals; \<^verbatim>\<open>$\<close> also
  matches before a final newline.
\<close>

definition all_box_numerals :: "ustring \<Rightarrow> bool" where
  "all_box_numerals s =
     ((s \<noteq> [] \<and> list_all box_numeral_char s)
      \<or> (s \<noteq> [] \<and> last s = 10 \<and> butlast s \<noteq> [] \<and> list_all box_numeral_char (butlast s)))"

definition box_label :: "ustring \<Rightarrow> ustring" where
  "box_label n = n @ [21495, 31665]"

fun box_pattern_loop :: "regex list \<Rightarrow> ustring \<Rightarrow> ustring option" where
  "box_pattern_loop [] text = None"
| "box_pattern_loop (pattern # rest) text =
     (case re_search pattern text of
        None \<Rightarrow> box_pattern_loop rest text
      | Some box_num \<Rightarrow>
          if all_box_numerals box_num then
            (case chinese_to_arabic box_num of
               None \<Rightarrow> box_pattern_loop rest text
             | Some arabic_num \<Rightarrow>
                 if arabic_num \<noteq> 0 then Some (box_label (str_int (int arabic_num)))
                 else box_pattern_loop rest text)
          else Some (box_label box_num))"

definition extract_box_number_from_text :: "ustring \<Rightarrow> regex list \<Rightarrow> ustring option" where
  "extract_box_number_from_text text patterns =
     (if text = [] then None else box_pattern_loop patterns (py_strip text))"

definition is_null_text :: "ustring \<Rightarrow> bool" where
  "is_null_text cell_str = (cell_str = [] \<or> py_lower cell_str \<in> set [asc ''nan'', asc ''none'', []])"

definition is_empty_row :: "(real \<Rightarrow> ustring) \<Rightarrow> cell list \<Rightarrow> bool" where
  "is_empty_row fr row =
     list_all (\<lambda>c. c = CNone \<or> is_null_text (py_strip (py_str fr c))) row"

section \<open>utils.py: evaluating a quantity\<close>

subsection \<open>The built-in \<^verbatim>\<open>float\<close> on a string\<close>

text \<open>
  \<^verbatim>\<open>float(text)\<close> accepts, between optional whitespace, a sign followed by
  \<^verbatim>\<open>inf\<close>, \<^verbatim>\<open>infinity\<close> or \<^verbatim>\<open>nan\<close> in any case, or by a decimal number: digits with
  single underscores between them, a point, an exponent. \<open>None\<close> stands for
  \<^verbatim>\<open>ValueError\<close>. The number read is the exact decimal value.
\<close>

definition is_digit_us :: "nat \<Rightarrow> bool" where
  "is_digit_us c = (is_digit c \<or> c = 95)"

definition valid_digitpart :: "ustring \<Rightarrow> bool" where
  "valid_digitpart ds = (ds \<noteq> [] \<and> is_digit (hd ds) \<and> is_digit (last ds)
     \<and> \<not> py_contains ds [95, 95])"

definition digits_value :: "ustring \<Rightarrow> nat" where
  "digits_value ds = foldl (\<lambda>a c. 10 * a + (c - 48)) 0 (filter is_digit ds)"

definition split_sign :: "ustring \<Rightarrow> bool \<times> ustring" where
  "split_sign s =
     (case s of
        [] \<Rightarrow> (False, [])
      | c # cs \<Rightarrow> if c = 45 then (True, cs) else if c = 43 then (False, cs) else (False, s))"

definition py_float :: "ustring \<Rightarrow> pyfloat option" where
  "py_float s0 =
     (let (neg, t) = split_sign (py_strip s0); low = py_lower t
      in if low = asc ''inf'' \<or> low = asc ''infinity'' then Some (if neg then NInf else PInf)
         else if low = asc ''nan'' then Some NaN
         else
           let ip = takeWhile is_digit_us t; r1 = dropWhile is_digit_us t;
               has_dot = (r1 \<noteq> [] \<and> hd r1 = 46);
               fp = (if has_dot then takeWhile is_digit_us (tl r1) else []);
               r2 = (if has_dot then dropWhile is_digit_us (tl r1) else r1);
               has_exp = (r2 \<noteq> [] \<and> (hd r2 = 101 \<or> hd r2 = 69));
               (eneg, r3) = split_sign (tl r2);
               ep = takeWhile is_digit_us r3; r4 = dropWhile is_digit_us r3;
               mant = real (digits_value ip)
                      + real (digits_value fp) / 10 ^ length (filter is_digit fp);
               signed = (\<lambda>x::real. if neg then - x else x)
           in if (ip = [] \<and> fp = []) \<or> (ip \<noteq> [] \<and> \<not> valid_digitpart ip)
                 \<or> (fp \<noteq> [] \<and> \<not> valid_digitpart fp) then None
              else if has_exp then
                (if valid_digitpart ep \<and> r4 = []
                 then Some (Fin (signed (if eneg then mant / 10 ^ digits_value ep
                                         else mant * 10 ^ digits_value ep)))
                 else None)
              else if r2 = [] then Some (Fin (signed mant)) else None)"

subsection \<open>The built-in \<^verbatim>\<open>eval\<close> on an arithmetic expression\<close>

text \<open>
  \<^verbatim>\<open>eval\<close> is reached only with strings of digits, whitespace and the characters
  \<^verbatim>\<open>+ - * / . ( )\<close>. The values of such expressions are integers, floats, the empty
  tuple, the ellipsis and complex numbers (a negative base with a fractional exponent);
  the value of a complex number is not tracked.
\<close>

datatype pyval = VInt int | VFloat real | VTuple | VEllipsis | VComplex

datatype tok = TNum pyval | TPlus | TMinus | TStar | TSlash | TPow | TFloorDiv | TLPar | TRPar
  | TErr

datatype lex_state = Idle | InInt ustring | InFrac ustring ustring | Dots nat | OneStar | OneSlash

text \<open>
  An integer literal has no leading zero unless it is all zeros; a float literal may.
\<close>

definition int_literal :: "ustring \<Rightarrow> tok" where
  "int_literal ds =
     (if hd ds \<noteq> 48 \<or> list_all (\<lambda>c. c = 48) ds then TNum (VInt (int (digits_value ds)))
      else TErr)"

definition float_literal :: "ustring \<Rightarrow> ustring \<Rightarrow> tok" where
  "float_literal ip fp =
     TNum (VFloat (real (digits_value ip) + real (digits_value fp) / 10 ^ length fp))"

fun lex_flush :: "lex_state \<Rightarrow> tok list" where
  "lex_flush Idle = []"
| "lex_flush (InInt ds) = [int_literal ds]"
| "lex_flush (InFrac ip fp) = [float_literal ip fp]"
| "lex_flush (Dots n) = [TErr]"
| "lex_flush OneStar = [TStar]"
| "lex_flush OneSlash = [TSlash]"

text \<open>
  A character read with no token in progress. Spaces, tabs and form feeds separate
  tokens; a line break does so only inside parentheses (\<open>depth\<close> counts the open ones);
  any other character is an error.
\<close>

definition idle_char :: "nat \<Rightarrow> nat \<Rightarrow> tok list \<times> lex_state \<times> nat" where
  "idle_char depth c =
     (if is_digit c then ([], InInt [c], depth)
      else if c = 46 then ([], Dots 1, depth)
      else if c = 42 then ([], OneStar, depth)
      else if c = 47 then ([], OneSlash, depth)
      else if c = 43 then ([TPlus], Idle, depth)
      else if c = 45 then ([TMinus], Idle, depth)
      else if c = 40 then ([TLPar], Idle, depth + 1)
      else if c = 41 then ([TRPar], Idle, depth - 1)
      else if c = 32 \<or> c = 9 \<or> c = 12 then ([], Idle, depth)
      else if (c = 10 \<or> c = 13) \<and> 0 < depth then ([], Idle, depth)
      else ([TErr], Idle, depth))"

definition flush_then :: "lex_state \<Rightarrow> nat \<Rightarrow> nat \<Rightarrow> tok list \<times> lex_state \<times> nat" where
  "flush_then st depth c =
     (case idle_char depth c of (ts, st', depth') \<Rightarrow> (lex_flush st @ ts, st', depth'))"

fun lex_char :: "lex_state \<Rightarrow> nat \<Rightarrow> nat \<Rightarrow> tok list \<times> lex_state \<times> nat" where
  "lex_char Idle depth c = idle_char depth c"
| "lex_char (InInt ds) depth c =
     (if is_digit c then ([], InInt (ds @ [c]), depth)
      else if c = 46 then ([], InFrac ds [], depth)
      else flush_then (InInt ds) depth c)"
| "lex_char (InFrac ip fp) depth c =
     (if is_digit c then ([], InFrac ip (fp @ [c]), depth)
      else flush_then (InFrac ip fp) depth c)"
| "lex_char (Dots n) depth c =
     (if n = 1 \<and> is_digit c then ([], InFrac [] [c], depth)
      else if n = 1 \<and> c = 46 then ([], Dots 2, depth)
      else if n = 2 \<and> c = 46 then ([TNum VEllipsis], Idle, depth)
      else flush_then (Dots n) depth c)"
| "lex_char OneStar depth c =
     (if c = 42 then ([TPow], Idle, depth) else flush_then OneStar depth c)"
| "lex_char OneSlash depth c =
     (if c = 47 then ([TFloorDiv], Idle, depth) else flush_then OneSlash depth c)"

fun lex_loop :: "ustring \<Rightarrow> lex_state \<Rightarrow> nat \<Rightarrow> tok list" where
  "lex_loop [] st depth = lex_flush st"
| "lex_loop (c # cs) st depth =
     (case lex_char st depth c of (ts, st', depth') \<Rightarrow> ts @ lex_loop cs st' depth')"

datatype binop = Add | Sub | Mul | Div | FloorDiv | Power

datatype ast = Num pyval | UNeg ast | UPos ast | Bin binop ast ast | Call ast "ast list"
  | StarArg ast

text \<open>
  The operators waiting on the stack of the parser: binary and unary operators, the star
  of a starred argument, an opening parenthesis of a group and one of a call.
\<close>

datatype opr = OBin binop | ONeg | OPos | OStar | OLPar | OCall

fun prec :: "opr \<Rightarrow> nat" where
  "prec (OBin Add) = 1"
| "prec (OBin Sub) = 1"
| "prec (OBin Mul) = 2"
| "prec (OBin Div) = 2"
| "prec (OBin FloorDiv) = 2"
| "prec ONeg = 3"
| "prec OPos = 3"
| "prec (OBin Power) = 4"
| "prec OStar = 0"
| "prec OLPar = 0"
| "prec OCall = 0"

fun apply_opr :: "opr \<Rightarrow> ast list \<Rightarrow> ast list option" where
  "apply_opr (OBin b) (y # x # out) = Some (Bin b x y # out)"
| "apply_opr ONeg (x # out) = Some (UNeg x # out)"
| "apply_opr OPos (x # out) = Some (UPos x # out)"
| "apply_opr OStar (x # out) = Some (StarArg x # out)"
| "apply_opr _ _ = None"

fun reduce_while :: "(opr \<Rightarrow> bool) \<Rightarrow> opr list \<Rightarrow> ast list \<Rightarrow> (opr list \<times> ast list) option" where
  "reduce_while P [] out = Some ([], out)"
| "reduce_while P (opr # ops) out =
     (if opr = OLPar \<or> opr = OCall \<or> \<not> P opr then Some (opr # ops, out)
      else (case apply_opr opr out of
              None \<Rightarrow> None
            | Some out' \<Rightarrow> reduce_while P ops out'))"

text \<open>
  A binary operator first reduces the operators that bind tighter, and those that bind
  as tight unless it is the power operator, which groups to the right.
\<close>

definition binds_before :: "binop \<Rightarrow> opr \<Rightarrow> bool" where
  "binds_before b opr = (prec (OBin b) < prec opr \<or> (prec opr = prec (OBin b) \<and> b \<noteq> Power))"

fun tok_binop :: "tok \<Rightarrow> binop option" where
  "tok_binop TPlus = Some Add"
| "tok_binop TMinus = Some Sub"
| "tok_binop TStar = Some Mul"
| "tok_binop TSlash = Some Div"
| "tok_binop TFloorDiv = Some FloorDiv"
| "tok_binop TPow = Some Power"
| "tok_binop _ = None"

text \<open>
  The parser reads the tokens from the left with a stack of operands \<open>out\<close> and a stack
  of operators \<open>ops\<close>; \<open>expect\<close> says that an operand has to come next. \<open>None\<close> is
  a syntax error.
\<close>

fun parse_loop :: "tok list \<Rightarrow> ast list \<Rightarrow> opr list \<Rightarrow> bool \<Rightarrow> ast option" where
  "parse_loop [] out ops expect =
     (if expect then None
      else (case reduce_while (\<lambda>_. True) ops out of
              Some ([], [e]) \<Rightarrow> Some e
            | _ \<Rightarrow> None))"
| "parse_loop (t # ts) out ops True =
     (case t of
        TNum v \<Rightarrow> parse_loop ts (Num v # out) ops False
      | TPlus \<Rightarrow> parse_loop ts out (OPos # ops) True
      | TMinus \<Rightarrow> parse_loop ts out (ONeg # ops) True
      | TLPar \<Rightarrow> parse_loop ts out (OLPar # ops) True
      | TRPar \<Rightarrow>
          (case (ops, out) of
             (OLPar # ops', _) \<Rightarrow> parse_loop ts (Num VTuple # out) ops' False
           | (OCall # ops', f # out') \<Rightarrow> parse_loop ts (Call f [] # out') ops' False
           | _ \<Rightarrow> None)
      | TStar \<Rightarrow> (case ops of OCall # _ \<Rightarrow> parse_loop ts out (OStar # ops) True | _ \<Rightarrow> None)
      | TPow \<Rightarrow> (case ops of OCall # _ \<Rightarrow> parse_loop ts out (OStar # ops) True | _ \<Rightarrow> None)
      | _ \<Rightarrow> None)"
| "parse_loop (t # ts) out ops False =
     (case tok_binop t of
        Some b \<Rightarrow>
          (case reduce_while (binds_before b) ops out of
             None \<Rightarrow> None
           | Some (ops', out') \<Rightarrow> parse_loop ts out' (OBin b # ops') True)
      | None \<Rightarrow>
          (case t of
             TLPar \<Rightarrow> parse_loop ts out (OCall # ops) True
           | TRPar \<Rightarrow>
               (case reduce_while (\<lambda>_. True) ops out of
                  Some (OLPar # ops', out') \<Rightarrow> parse_loop ts out' ops' False
                | Some (OCall # ops', a # f # out') \<Rightarrow> parse_loop ts (Call f [a] # out') ops' False
                | _ \<Rightarrow> None)
           | _ \<Rightarrow> None))"

definition py_parse :: "ustring \<Rightarrow> ast option" where
  "py_parse s = parse_loop (lex_loop s Idle 0) [] [] True"

text \<open>
  Converting an integer to a float raises when it rounds to a value beyond the largest
  double; so does the true division of integers. A repetition count has to fit a 64-bit
  index.
\<close>

definition float_limit :: real where
  "float_limit = 2 ^ 1024 - 2 ^ 970"

fun to_float :: "pyval \<Rightarrow> py_exc + real" where
  "to_float (VInt n) = (if float_limit \<le> \<bar>real_of_int n\<bar> then Inl OverflowError else Inr (real_of_int n))"
| "to_float (VFloat r) = Inr r"
| "to_float _ = Inl TypeError"

definition is_number :: "pyval \<Rightarrow> bool" where
  "is_number v = (case v of VInt _ \<Rightarrow> True | VFloat _ \<Rightarrow> True | _ \<Rightarrow> False)"

definition float_op :: "(real \<Rightarrow> real \<Rightarrow> py_exc + pyval) \<Rightarrow> pyval \<Rightarrow> pyval \<Rightarrow> py_exc + pyval" where
  "float_op f a b =
     (case to_float a of Inl e \<Rightarrow> Inl e | Inr x \<Rightarrow>
        (case to_float b of Inl e \<Rightarrow> Inl e | Inr y \<Rightarrow> f x y))"

text \<open>An operation with a complex operand: the other operand is converted first.\<close>

definition complex_op :: "pyval \<Rightarrow> pyval \<Rightarrow> py_exc + pyval" where
  "complex_op a b =
     (if a = VComplex \<and> b = VComplex then Inr VComplex
      else if a = VComplex \<and> is_number b then
        (case to_float b of Inl e \<Rightarrow> Inl e | Inr _ \<Rightarrow> Inr VComplex)
      else if is_number a \<and> b = VComplex then
        (case to_float a of Inl e \<Rightarrow> Inl e | Inr _ \<Rightarrow> Inr VComplex)
      else Inl TypeError)"

definition float_pow :: "real \<Rightarrow> real \<Rightarrow> py_exc + pyval" where
  "float_pow x y =
     (if y = of_int \<lfloor>y\<rfloor> then
        (if 0 \<le> y then Inr (VFloat (x ^ nat \<lfloor>y\<rfloor>))
         else if x = 0 then Inl ZeroDivisionError
         else Inr (VFloat (1 / x ^ nat (- \<lfloor>y\<rfloor>))))
      else if 0 < x then Inr (VFloat (x powr y))
      else if x = 0 then (if 0 < y then Inr (VFloat 0) else Inl ZeroDivisionError)
      else Inr VComplex)"

fun bin_op :: "binop \<Rightarrow> pyval \<Rightarrow> pyval \<Rightarrow> py_exc + pyval" where
  "bin_op Add (VInt a) (VInt b) = Inr (VInt (a + b))"
| "bin_op Add VTuple VTuple = Inr VTuple"
| "bin_op Add a b =
     (if is_number a \<and> is_number b then float_op (\<lambda>x y. Inr (VFloat (x + y))) a b
      else complex_op a b)"
| "bin_op Sub (VInt a) (VInt b) = Inr (VInt (a - b))"
| "bin_op Sub a b =
     (if is_number a \<and> is_number b then float_op (\<lambda>x y. Inr (VFloat (x - y))) a b
      else complex_op a b)"
| "bin_op Mul (VInt a) (VInt b) = Inr (VInt (a * b))"
| "bin_op Mul VTuple (VInt n) =
     (if - (2 ^ 63) \<le> n \<and> n < 2 ^ 63 then Inr VTuple else Inl OverflowError)"
| "bin_op Mul (VInt n) VTuple =
     (if - (2 ^ 63) \<le> n \<and> n < 2 ^ 63 then Inr VTuple else Inl OverflowError)"
| "bin_op Mul a b =
     (if is_number a \<and> is_number b then float_op (\<lambda>x y. Inr (VFloat (x * y))) a b
      else complex_op a b)"
| "bin_op Div (VInt a) (VInt b) =
     (if b = 0 then Inl ZeroDivisionError
      else if float_limit \<le> \<bar>real_of_int a / real_of_int b\<bar> then Inl OverflowError
      else Inr (VFloat (real_of_int a / real_of_int b)))"
| "bin_op Div a b =
     (if is_number a \<and> is_number b
      then float_op (\<lambda>x y. if y = 0 then Inl ZeroDivisionError else Inr (VFloat (x / y))) a b
      else if a = VComplex \<and> is_number b
      then float_op (\<lambda>x y. if y = 0 then Inl ZeroDivisionError else Inr VComplex) (VFloat 0) b
      else complex_op a b)"
| "bin_op FloorDiv (VInt a) (VInt b) =
     (if b = 0 then Inl ZeroDivisionError else Inr (VInt (a div b)))"
| "bin_op FloorDiv a b =
     (if is_number a \<and> is_number b
      then float_op (\<lambda>x y. if y = 0 then Inl ZeroDivisionError
                            else Inr (VFloat (of_int \<lfloor>x / y\<rfloor>))) a b
      else Inl TypeError)"
| "bin_op Power (VInt a) (VInt b) =
     (if 0 \<le> b then Inr (VInt (a ^ nat b))
      else if a = 0 then Inl ZeroDivisionError
      else float_op float_pow (VInt a) (VInt b))"
| "bin_op Power a b =
     (if is_number a \<and> is_number b then float_op float_pow a b else complex_op a b)"

fun un_op :: "bool \<Rightarrow> pyval \<Rightarrow> py_exc + pyval" where
  "un_op negate (VInt a) = Inr (VInt (if negate then - a else a))"
| "un_op negate (VFloat x) = Inr (VFloat (if negate then - x else x))"
| "un_op negate VComplex = Inr VComplex"
| "un_op negate _ = Inl TypeError"

text \<open>
  Evaluation goes from left to right. A call evaluates the callee and the arguments and
  then raises, since no value of these expressions can be called.
\<close>

fun eval_ast :: "ast \<Rightarrow> py_exc + pyval"
  and eval_args :: "ast list \<Rightarrow> py_exc + unit" where
  "eval_ast (Num v) = Inr v"
| "eval_ast (UNeg a) = (case eval_ast a of Inl e \<Rightarrow> Inl e | Inr v \<Rightarrow> un_op True v)"
| "eval_ast (UPos a) = (case eval_ast a of Inl e \<Rightarrow> Inl e | Inr v \<Rightarrow> un_op False v)"
| "eval_ast (Bin b x y) =
     (case eval_ast x of Inl e \<Rightarrow> Inl e | Inr v \<Rightarrow>
        (case eval_ast y of Inl e \<Rightarrow> Inl e | Inr w \<Rightarrow> bin_op b v w))"
| "eval_ast (Call f args) =
     (case eval_ast f of Inl e \<Rightarrow> Inl e | Inr v \<Rightarrow>
        (case eval_args args of Inl e \<Rightarrow> Inl e | Inr _ \<Rightarrow> Inl TypeError))"
| "eval_ast (StarArg a) = eval_ast a"
| "eval_args [] = Inr ()"
| "eval_args (a # as) =
     (case eval_ast a of Inl e \<Rightarrow> Inl e | Inr _ \<Rightarrow> eval_args as)"

definition py_eval :: "ustring \<Rightarrow> py_exc + pyval" where
  "py_eval s = (case py_parse s of None \<Rightarrow> Inl SyntaxError | Some e \<Rightarrow> eval_ast e)"

subsection \<open>\<open>safe_eval_expression\<close>\<close>

text \<open>The characters of \<open>allowed_pattern\<close>.\<close>

definition allowed_char :: "nat \<Rightarrow> bool" where
  "allowed_char c = (is_digit c \<or> py_isspace c \<or> c \<in> set [43, 45, 42, 47, 46, 40, 41])"

definition allowed_expression :: "ustring \<Rightarrow> bool" where
  "allowed_expression s = (s \<noteq> [] \<and> list_all allowed_char s)"

text \<open>The exceptions of the \<^verbatim>\<open>except\<close> clause.\<close>

definition caught :: "py_exc \<Rightarrow> bool" where
  "caught e = (e \<in> set [SyntaxError, NameError, TypeError, ZeroDivisionError, ValueError])"

definition guarded :: "py_exc + real \<Rightarrow> py_exc + pyfloat option" where
  "guarded res =
     (case res of
        Inl e \<Rightarrow> if caught e then Inr None else Inl e
      | Inr r \<Rightarrow> Inr (Some (Fin r)))"

fun safe_eval_expression :: "cell \<Rightarrow> py_exc + pyfloat option" where
  "safe_eval_expression CNone = Inr None"
| "safe_eval_expression (CInt n) =
     (case to_float (VInt n) of Inl e \<Rightarrow> Inl e | Inr r \<Rightarrow> Inr (Some (Fin r)))"
| "safe_eval_expression (CFloat NaN) = Inr None"
| "safe_eval_expression (CFloat f) = Inr (Some f)"
| "safe_eval_expression (CStr s) =
     (let expr_str = lstrip_char 39 (lstrip_char 39 (lstrip_char 39 (py_strip s)))
      in if expr_str = [] \<or> py_lower expr_str \<in> set [asc ''nan'', asc ''none'', [], asc ''-'']
         then Inr None
         else
           (case py_float expr_str of
              Some f \<Rightarrow> Inr (Some f)
            | None \<Rightarrow>
                if \<not> allowed_expression expr_str then Inr None
                else guarded (case py_eval expr_str of
                                Inl e \<Rightarrow> Inl e
                              | Inr v \<Rightarrow> to_float v)))"

section \<open>file_reader.py: the item records\<close>

record BOMItem =
  main_part_id :: ustring
  quantity :: pyfloat
  substitute_ids :: "ustring list"
  name :: ustring
  row_index :: int

record ListItem =
  part_id :: ustring
  quantity :: pyfloat
  box_number :: ustring
  row_index :: int

section \<open>file_reader.py: parsing a grid\<close>

record ParseDiagnostics =
  file_type :: ustring
  header_row :: int
  header_score :: int
  parse_mode :: ParseMode
  total_rows :: nat
  parsed_items :: nat
  skipped_rows :: nat
  warnings :: "ustring list"

text \<open>\<^verbatim>\<open>xs[k:]\<close> for an integer \<open>k\<close>, and \<^verbatim>\<open>row[col] if col < len(row) else None\<close>.\<close>

definition py_slice_from :: "'a list \<Rightarrow> int \<Rightarrow> 'a list" where
  "py_slice_from xs k = drop (nat (if k < 0 then max 0 (int (length xs) + k) else k)) xs"

definition cell_at :: "cell list \<Rightarrow> int \<Rightarrow> py_exc + cell" where
  "cell_at row col = (if col < int (length row) then py_index row col else Inr CNone)"

text \<open>The substitutes and the name of a BOM row, read from their optional columns.\<close>

definition bom_substitute_cell ::
  "(real \<Rightarrow> ustring) \<Rightarrow> MappingConfig \<Rightarrow> cell list \<Rightarrow> py_exc + ustring list" where
  "bom_substitute_cell fr config row =
     (case substitute_col config of
        None \<Rightarrow> Inr []
      | Some sc \<Rightarrow>
          if sc < int (length row)
          then (case py_index row sc of
                  Inl e \<Rightarrow> Inl e
                | Inr c \<Rightarrow> Inr (extract_substitute_ids fr c))
          else Inr [])"

definition bom_name_cell ::
  "(real \<Rightarrow> ustring) \<Rightarrow> MappingConfig \<Rightarrow> cell list \<Rightarrow> py_exc + ustring" where
  "bom_name_cell fr config row =
     (case name_col config of
        None \<Rightarrow> Inr []
      | Some nc \<Rightarrow>
          if nc < int (length row)
          then (case py_index row nc of
                  Inl e \<Rightarrow> Inl e
                | Inr c \<Rightarrow> Inr (if truthy c then py_strip (py_str fr c) else []))
          else Inr [])"

text \<open>
  The body of the loop of \<open>parse_bom\<close> on one row: \<open>None\<close> when the row is skipped,
  the item when it is kept. \<open>row_idx\<close> is the index of the row among the data rows.
\<close>

definition parse_bom_row ::
  "(real \<Rightarrow> ustring) \<Rightarrow> MappingConfig \<Rightarrow> int \<Rightarrow> cell list \<Rightarrow> py_exc + BOMItem option" where
  "parse_bom_row fr config row_idx row =
     (if is_empty_row fr row then Inr None
      else if int (length row) \<le> max (part_col config) (qty_col config) then Inr None
      else
        (case cell_at row (part_col config) of Inl e \<Rightarrow> Inl e | Inr pc \<Rightarrow>
        (case clean_part_number fr pc of Inl e \<Rightarrow> Inl e | Inr pid \<Rightarrow>
           if pid = [] then Inr None
           else
             (case cell_at row (qty_col config) of Inl e \<Rightarrow> Inl e | Inr qc \<Rightarrow>
             (case safe_eval_expression qc of
                Inl e \<Rightarrow> Inl e
              | Inr None \<Rightarrow> Inr None
              | Inr (Some qty) \<Rightarrow>
                  if f_le qty (Fin 0) then Inr None
                  else
                    (case bom_substitute_cell fr config row of
                       Inl e \<Rightarrow> Inl e
                     | Inr substitutes \<Rightarrow>
                         (case bom_name_cell fr config row of
                            Inl e \<Rightarrow> Inl e
                          | Inr nm \<Rightarrow>
                              Inr (Some \<lparr>main_part_id = pid, quantity = qty,
                                         substitute_ids = substitutes, name = nm,
                                         row_index = MappingConfig.header_row config + 1
                                                     + row_idx + 1\<rparr>))))))))"

fun parse_bom_loop ::
  "(real \<Rightarrow> ustring) \<Rightarrow> MappingConfig \<Rightarrow> cell list list \<Rightarrow> int \<Rightarrow> BOMItem list \<Rightarrow> nat
    \<Rightarrow> py_exc + BOMItem list \<times> nat" where
  "parse_bom_loop fr config [] row_idx bom_items skipped = Inr (bom_items, skipped)"
| "parse_bom_loop fr config (row # rest) row_idx bom_items skipped =
     (case parse_bom_row fr config row_idx row of
        Inl e \<Rightarrow> Inl e
      | Inr None \<Rightarrow> parse_bom_loop fr config rest (row_idx + 1) bom_items (skipped + 1)
      | Inr (Some item) \<Rightarrow>
          parse_bom_loop fr config rest (row_idx + 1) (bom_items @ [item]) skipped)"

text \<open>
  \<open>parse_bom\<close> returns the items and the diagnostics; the data frame, a copy of the
  items for display, is left out.
\<close>

definition parse_bom ::
  "(real \<Rightarrow> ustring) \<Rightarrow> cell list list \<Rightarrow> MappingConfig
    \<Rightarrow> py_exc + BOMItem list \<times> ParseDiagnostics" where
  "parse_bom fr raw_data config =
     (let header_row_idx = MappingConfig.header_row config;
          data_rows = py_slice_from raw_data (header_row_idx + 1)
      in case parse_bom_loop fr config data_rows 0 [] 0 of
           Inl e \<Rightarrow> Inl e
         | Inr (bom_items, skipped) \<Rightarrow>
             Inr (bom_items,
                  \<lparr>file_type = asc ''BOM'', header_row = header_row_idx + 1, header_score = 0,
                   parse_mode = STANDARD, total_rows = length data_rows,
                   parsed_items = length bom_items, skipped_rows = skipped,
                   warnings = []\<rparr>))"

text \<open>The checks that the two checklist modes share, after the test for an empty row.\<close>

definition list_row_fields ::
  "(real \<Rightarrow> ustring) \<Rightarrow> MappingConfig \<Rightarrow> cell list \<Rightarrow> py_exc + (ustring \<times> pyfloat) option" where
  "list_row_fields fr config row =
     (if int (length row) \<le> max (part_col config) (qty_col config) then Inr None
      else
        (case cell_at row (part_col config) of Inl e \<Rightarrow> Inl e | Inr pc \<Rightarrow>
        (case clean_part_number fr pc of Inl e \<Rightarrow> Inl e | Inr pid \<Rightarrow>
           if pid = [] then Inr None
           else
             (case cell_at row (qty_col config) of Inl e \<Rightarrow> Inl e | Inr qc \<Rightarrow>
             (case safe_eval_expression qc of
                Inl e \<Rightarrow> Inl e
              | Inr None \<Rightarrow> Inr None
              | Inr (Some qty) \<Rightarrow> Inr (Some (pid, qty)))))))"

definition parse_standard_row ::
  "(real \<Rightarrow> ustring) \<Rightarrow> MappingConfig \<Rightarrow> int \<Rightarrow> cell list \<Rightarrow> py_exc + ListItem option" where
  "parse_standard_row fr config row_idx row =
     (if is_empty_row fr row then Inr None
      else
        case list_row_fields fr config row of
          Inl e \<Rightarrow> Inl e
        | Inr None \<Rightarrow> Inr None
        | Inr (Some (pid, qty)) \<Rightarrow>
            (case (case box_col config of
                     None \<Rightarrow> Inr []
                   | Some bc \<Rightarrow>
                       if bc < int (length row)
                       then (case py_index row bc of
                               Inl e \<Rightarrow> Inl e
                             | Inr c \<Rightarrow> normalize_box_number fr c)
                       else Inr []) of
               Inl e \<Rightarrow> Inl e
             | Inr box \<Rightarrow>
                 Inr (Some \<lparr>ListItem.part_id = pid, quantity = qty, box_number = box,
                            row_index = MappingConfig.header_row config + 1 + row_idx + 1\<rparr>)))"

fun parse_standard_loop ::
  "(real \<Rightarrow> ustring) \<Rightarrow> MappingConfig \<Rightarrow> cell list list \<Rightarrow> int \<Rightarrow> ListItem list \<Rightarrow> nat
    \<Rightarrow> py_exc + ListItem list \<times> nat" where
  "parse_standard_loop fr config [] row_idx items skipped = Inr (items, skipped)"
| "parse_standard_loop fr config (row # rest) row_idx items skipped =
     (case parse_standard_row fr config row_idx row of
        Inl e \<Rightarrow> Inl e
      | Inr None \<Rightarrow> parse_standard_loop fr config rest (row_idx + 1) items (skipped + 1)
      | Inr (Some item) \<Rightarrow>
          parse_standard_loop fr config rest (row_idx + 1) (items @ [item]) skipped)"

definition parse_standard ::
  "(real \<Rightarrow> ustring) \<Rightarrow> cell list list \<Rightarrow> MappingConfig \<Rightarrow> ustring
    \<Rightarrow> py_exc + ListItem list \<times> ParseDiagnostics" where
  "parse_standard fr raw_data config file_label =
     (let header_row_idx = MappingConfig.header_row config;
          data_rows = py_slice_from raw_data (header_row_idx + 1)
      in case parse_standard_loop fr config data_rows 0 [] 0 of
           Inl e \<Rightarrow> Inl e
         | Inr (items, skipped) \<Rightarrow>
             Inr (items,
                  \<lparr>file_type = file_label, header_row = header_row_idx + 1, header_score = 0,
                   parse_mode = STANDARD, total_rows = length data_rows,
                   parsed_items = length items, skipped_rows = skipped, warnings = []\<rparr>))"

text \<open>
  Stream mode. The state of the scan is the current box. One row either sets the box (a
  marker row, consumed), is skipped, or gives an item tagged with the current box.
\<close>

datatype stream_step = SetBox ustring | Skipped | Emit ListItem

definition parse_stream_row ::
  "(real \<Rightarrow> ustring) \<Rightarrow> MappingConfig \<Rightarrow> ustring \<Rightarrow> int \<Rightarrow> cell list \<Rightarrow> py_exc + stream_step" where
  "parse_stream_row fr config current_box row_idx row =
     (if row = [] then Inr Skipped
      else
        case extract_box_number_from_text (row_text fr row) BOX_MARKER_PATTERNS of
          Some box_match \<Rightarrow> Inr (SetBox box_match)
        | None \<Rightarrow>
            if is_empty_row fr row then Inr Skipped
            else
              (case list_row_fields fr config row of
                 Inl e \<Rightarrow> Inl e
               | Inr None \<Rightarrow> Inr Skipped
               | Inr (Some (pid, qty)) \<Rightarrow>
                   Inr (Emit \<lparr>ListItem.part_id = pid, quantity = qty,
                              box_number = current_box, row_index = row_idx + 1\<rparr>)))"

text \<open>The loop over the row indices \<open>header_row + 1, ..., len(raw_data) - 1\<close>.\<close>

fun parse_stream_loop ::
  "(real \<Rightarrow> ustring) \<Rightarrow> MappingConfig \<Rightarrow> cell list list \<Rightarrow> int list \<Rightarrow> ustring
    \<Rightarrow> ListItem list \<Rightarrow> nat \<Rightarrow> py_exc + ListItem list \<times> nat" where
  "parse_stream_loop fr config raw_data [] current_box items skipped = Inr (items, skipped)"
| "parse_stream_loop fr config raw_data (row_idx # rest) current_box items skipped =
     (case py_index raw_data row_idx of
        Inl e \<Rightarrow> Inl e
      | Inr row \<Rightarrow>
          (case parse_stream_row fr config current_box row_idx row of
             Inl e \<Rightarrow> Inl e
           | Inr (SetBox b) \<Rightarrow> parse_stream_loop fr config raw_data rest b items (skipped + 1)
           | Inr Skipped \<Rightarrow>
               parse_stream_loop fr config raw_data rest current_box items (skipped + 1)
           | Inr (Emit item) \<Rightarrow>
               parse_stream_loop fr config raw_data rest current_box (items @ [item]) skipped))"

definition py_range :: "int \<Rightarrow> int \<Rightarrow> int list" where
  "py_range a b = map (\<lambda>k. a + int k) [0..<nat (b - a)]"

definition parse_stream ::
  "(real \<Rightarrow> ustring) \<Rightarrow> cell list list \<Rightarrow> MappingConfig \<Rightarrow> ustring
    \<Rightarrow> py_exc + ListItem list \<times> ParseDiagnostics" where
  "parse_stream fr raw_data config file_label =
     (let header_row_idx = MappingConfig.header_row config
      in case parse_stream_loop fr config raw_data
                (py_range (header_row_idx + 1) (int (length raw_data))) [] [] 0 of
           Inl e \<Rightarrow> Inl e
         | Inr (items, skipped) \<Rightarrow>
             Inr (items,
                  \<lparr>file_type = file_label, header_row = header_row_idx + 1, header_score = 0,
                   parse_mode = STREAM, total_rows = length raw_data,
                   parsed_items = length items, skipped_rows = skipped, warnings = []\<rparr>))"

definition parse_generic_list ::
  "(real \<Rightarrow> ustring) \<Rightarrow> cell list list \<Rightarrow> MappingConfig \<Rightarrow> ustring
    \<Rightarrow> py_exc + ListItem list \<times> ParseDiagnostics" where
  "parse_generic_list fr raw_data config file_label =
     (if stream_parse config then parse_stream fr raw_data config file_label
      else parse_standard fr raw_data config file_label)"

section \<open>data_processor.py\<close>

record CompareResult =
  work_order :: ustring
  part_id :: ustring
  part_name :: ustring
  bom_quantity :: pyfloat
  actual_quantity :: pyfloat
  difference :: pyfloat
  status :: JudgmentStatus
  box_sources :: "ustring list"
  matched_substitutes :: "ustring list"
  remark :: ustring

definition is_pass :: "CompareResult \<Rightarrow> bool" where
  "is_pass r = py_startswith (status_str (status r)) (asc ''OK'')"

definition is_ng :: "CompareResult \<Rightarrow> bool" where
  "is_ng r = py_startswith (status_str (status r)) (asc ''NG'')"

record MatchResult =
  compare_result :: CompareResult
  matched_part_ids :: "ustring set"

type_synonym part_lookup = "(ustring \<times> ListItem list) list"

fun build_part_lookup_loop :: "ListItem list \<Rightarrow> part_lookup \<Rightarrow> part_lookup" where
  "build_part_lookup_loop [] lookup = lookup"
| "build_part_lookup_loop (item # rest) lookup =
     (let pid = clean_part_number_str (ListItem.part_id item)
      in build_part_lookup_loop rest
           (if pid \<noteq> [] then dict_append pid item lookup else lookup))"

definition build_part_lookup :: "ListItem list \<Rightarrow> part_lookup" where
  "build_part_lookup list_items = build_part_lookup_loop list_items []"

text \<open>
  The candidate ids of a BOM line: the cleaned main id, then the cleaned substitute ids
  that are not empty and differ from the main id.
\<close>

definition bom_substitutes :: "BOMItem \<Rightarrow> ustring list" where
  "bom_substitutes bom_item =
     (let main_part = clean_part_number_str (main_part_id bom_item);
          substitutes = map clean_part_number_str (filter (\<lambda>s. s \<noteq> []) (substitute_ids bom_item))
      in filter (\<lambda>s. s \<noteq> [] \<and> s \<noteq> main_part) substitutes)"

definition bom_all_parts :: "BOMItem \<Rightarrow> ustring list" where
  "bom_all_parts bom_item = clean_part_number_str (main_part_id bom_item) # bom_substitutes bom_item"

text \<open>
  The loop over \<open>all_parts\<close>, with its three accumulators \<open>matched_items\<close>,
  \<open>matched_sub_ids\<close> and \<open>matched_list_ids\<close>.
\<close>

fun match_loop :: "ustring \<Rightarrow> part_lookup \<Rightarrow> ustring list
    \<Rightarrow> ListItem list \<times> ustring set \<times> ustring set
    \<Rightarrow> ListItem list \<times> ustring set \<times> ustring set" where
  "match_loop main_part lookup [] acc = acc"
| "match_loop main_part lookup (pid # rest) (matched_items, matched_sub_ids, matched_list_ids) =
     (case map_of lookup pid of
        None \<Rightarrow> match_loop main_part lookup rest (matched_items, matched_sub_ids, matched_list_ids)
      | Some its \<Rightarrow>
          match_loop main_part lookup rest
            (matched_items @ its,
             (if pid \<noteq> main_part then insert pid matched_sub_ids else matched_sub_ids),
             insert pid matched_list_ids))"

definition remark_missing :: ustring where
  "remark_missing = [28165, 21333, 20013, 26410, 25214, 21040, 35813, 26009, 21495, 21450,
     20854, 26367, 20195, 26009]"

definition remark_use_sub :: ustring where
  "remark_use_sub = [20351, 29992, 26367, 20195, 26009, 58, 32]"

definition remark_excess :: ustring where
  "remark_excess = [36229, 37327, 32, 43]"

definition remark_short :: ustring where
  "remark_short = [27424, 37327, 32]"

definition remark_with_sub :: ustring where
  "remark_with_sub = [21547, 26367, 20195, 26009, 58, 32]"

definition remark_not_in_bom :: ustring where
  "remark_not_in_bom = [30097, 20284, 25216, 26415, 21464, 26356, 25110, 24322, 24120, 28151,
     26009, 65292, 35831, 26680, 23454]"

definition match_bom_item ::
  "(ustring set \<Rightarrow> ustring list) \<Rightarrow> BOMItem \<Rightarrow> part_lookup \<Rightarrow> ustring \<Rightarrow> py_exc + MatchResult" where
  "match_bom_item h bom_item lookup wo =
     (let main_part = clean_part_number_str (main_part_id bom_item);
          all_parts = bom_all_parts bom_item;
          (matched_items, matched_sub_ids, matched_list_ids) =
             match_loop main_part lookup all_parts ([], {}, {});
          actual = py_sum (map ListItem.quantity matched_items);
          boxes = filter (\<lambda>b. b \<noteq> []) (map box_number matched_items);
          diff = f_sub actual (BOMItem.quantity bom_item);
          sub_list = py_join (asc '', '') (sort_key (\<lambda>x. x) (h matched_sub_ids));
          judged =
            (if matched_items = [] then Inr (NG_MISSING, [remark_missing])
             else if f_lt (f_abs diff) (round_double 0.001) then
               (if matched_sub_ids \<noteq> {} then Inr (OK_WITH_SUB, [remark_use_sub @ sub_list])
                else Inr (OK, []))
             else
               (case format_number diff of
                  Inl e \<Rightarrow> Inl e
                | Inr d \<Rightarrow>
                    Inr (NG_QTY_DIFF,
                      [(if f_lt (Fin 0) diff then remark_excess else remark_short) @ d]
                      @ (if matched_sub_ids \<noteq> {} then [remark_with_sub @ sub_list] else [])))
                )
      in case judged of
           Inl e \<Rightarrow> Inl e
         | Inr (st, remarks) \<Rightarrow>
             Inr \<lparr>compare_result =
                    \<lparr>work_order = wo, part_id = main_part, part_name = name bom_item,
                     bom_quantity = BOMItem.quantity bom_item, actual_quantity = actual,
                     difference = diff, status = st, box_sources = boxes,
                     matched_substitutes = h matched_sub_ids,
                     remark = (if remarks \<noteq> [] then py_join (asc ''; '') remarks else [])\<rparr>,
                   matched_part_ids = matched_list_ids\<rparr>)"

fun unmatched_loop :: "ListItem list \<Rightarrow> ustring set \<Rightarrow> part_lookup \<Rightarrow> part_lookup" where
  "unmatched_loop [] bom_all unmatched = unmatched"
| "unmatched_loop (item # rest) bom_all unmatched =
     (let pid = clean_part_number_str (ListItem.part_id item)
      in unmatched_loop rest bom_all
           (if pid \<noteq> [] \<and> pid \<notin> bom_all then dict_append pid item unmatched else unmatched))"

definition unmatched_result :: "ustring \<Rightarrow> ustring \<times> ListItem list \<Rightarrow> CompareResult" where
  "unmatched_result wo entry =
     (case entry of (pid, its) \<Rightarrow>
        let total = py_sum (map ListItem.quantity its);
            boxes = filter (\<lambda>b. b \<noteq> []) (map box_number its)
        in \<lparr>work_order = wo, part_id = pid, part_name = [],
            bom_quantity = Fin 0, actual_quantity = total, difference = total,
            status = NG_NOT_IN_BOM, box_sources = boxes,
            matched_substitutes = [], remark = remark_not_in_bom\<rparr>)"

definition find_unmatched_list_items ::
  "ListItem list \<Rightarrow> ustring set \<Rightarrow> ustring \<Rightarrow> CompareResult list" where
  "find_unmatched_list_items list_items bom_all_parts_set wo =
     map (unmatched_result wo) (unmatched_loop list_items bom_all_parts_set [])"

text \<open>The set \<open>bom_all\<close> built by the first loop of \<open>compare_bom_and_list\<close>.\<close>

fun bom_all_subs :: "ustring list \<Rightarrow> ustring set \<Rightarrow> ustring set" where
  "bom_all_subs [] acc = acc"
| "bom_all_subs (s # rest) acc =
     (let sc = clean_part_number_str s
      in bom_all_subs rest (if sc \<noteq> [] then insert sc acc else acc))"

fun bom_all_loop :: "BOMItem list \<Rightarrow> ustring set \<Rightarrow> ustring set" where
  "bom_all_loop [] acc = acc"
| "bom_all_loop (b # rest) acc =
     (let mp = clean_part_number_str (main_part_id b);
          acc1 = (if mp \<noteq> [] then insert mp acc else acc)
      in bom_all_loop rest (bom_all_subs (substitute_ids b) acc1))"

fun match_all ::
  "(ustring set \<Rightarrow> ustring list) \<Rightarrow> BOMItem list \<Rightarrow> part_lookup \<Rightarrow> ustring
    \<Rightarrow> py_exc + CompareResult list" where
  "match_all h [] lookup wo = Inr []"
| "match_all h (b # rest) lookup wo =
     (case match_bom_item h b lookup wo of
        Inl e \<Rightarrow> Inl e
      | Inr mr \<Rightarrow>
          (case match_all h rest lookup wo of
             Inl e \<Rightarrow> Inl e
           | Inr rs \<Rightarrow> Inr (compare_result mr # rs)))"

text \<open>
  \<open>compare_bom_and_list\<close> up to \<open>all_res\<close>: the records of the forward pass in BOM
  order, then the records of the reverse pass.
\<close>

definition compare_all_res ::
  "(ustring set \<Rightarrow> ustring list) \<Rightarrow> BOMItem list \<Rightarrow> ListItem list \<Rightarrow> ustring
    \<Rightarrow> py_exc + CompareResult list" where
  "compare_all_res h bom_items list_items wo =
     (let lookup = build_part_lookup list_items;
          bom_all = bom_all_loop bom_items {}
      in case match_all h bom_items lookup wo of
           Inl e \<Rightarrow> Inl e
         | Inr bom_results \<Rightarrow>
             Inr (bom_results @ find_unmatched_list_items list_items bom_all wo))"

record Stats =
  total_items :: nat
  bom_items_count :: nat
  ok_count :: nat
  ng_count :: nat
  pass_rate :: pyfloat
  ok_main_only :: nat
  ok_with_substitute :: nat
  substitute_used_count :: nat
  ng_qty_difference :: nat
  ng_missing :: nat
  ng_not_in_bom :: nat
  list_type :: ustring

definition count_where :: "('a \<Rightarrow> bool) \<Rightarrow> 'a list \<Rightarrow> nat" where
  "count_where P xs = length (filter P xs)"

definition make_stats :: "CompareResult list \<Rightarrow> nat \<Rightarrow> ustring \<Rightarrow> Stats" where
  "make_stats all_res n_bom list_label =
     (let total = length all_res; ok = count_where is_pass all_res
      in \<lparr>total_items = total, bom_items_count = n_bom, ok_count = ok,
          ng_count = count_where is_ng all_res,
          pass_rate = (if total \<noteq> 0
                       then f_mul (round_double (real ok / real total)) (Fin 100) else Fin 0),
          ok_main_only = count_where (\<lambda>r. status r = OK) all_res,
          ok_with_substitute = count_where (\<lambda>r. status r = OK_WITH_SUB) all_res,
          substitute_used_count = count_where (\<lambda>r. status r = OK_WITH_SUB) all_res,
          ng_qty_difference = count_where (\<lambda>r. status r = NG_QTY_DIFF) all_res,
          ng_missing = count_where (\<lambda>r. status r = NG_MISSING) all_res,
          ng_not_in_bom = count_where (\<lambda>r. status r = NG_NOT_IN_BOM) all_res,
          list_type = list_label\<rparr>)"

text \<open>One row of the result table, in the column order of \<open>col_order\<close>.\<close>

record Row =
  col_work_order :: ustring
  col_part_id :: ustring
  col_name :: ustring
  col_bom_quantity :: ustring
  col_actual :: ustring
  col_difference :: ustring
  col_status :: ustring
  col_box_sources :: ustring
  col_remark :: ustring

definition make_row :: "(ustring set \<Rightarrow> ustring list) \<Rightarrow> CompareResult \<Rightarrow> py_exc + Row" where
  "make_row h r =
     (case format_number (bom_quantity r) of Inl e \<Rightarrow> Inl e | Inr fb \<Rightarrow>
       (case format_number (actual_quantity r) of Inl e \<Rightarrow> Inl e | Inr fa \<Rightarrow>
         (case format_number (difference r) of Inl e \<Rightarrow> Inl e | Inr fd \<Rightarrow>
            Inr \<lparr>col_work_order = (if work_order r \<noteq> [] then work_order r else asc ''-''),
                 col_part_id = CompareResult.part_id r,
                 col_name = (if part_name r \<noteq> [] then part_name r else asc ''-''),
                 col_bom_quantity = fb, col_actual = fa, col_difference = fd,
                 col_status = status_str (status r),
                 col_box_sources = merge_box_numbers h (box_sources r),
                 col_remark = remark r\<rparr>)))"

fun make_rows :: "(ustring set \<Rightarrow> ustring list) \<Rightarrow> CompareResult list \<Rightarrow> py_exc + Row list" where
  "make_rows h [] = Inr []"
| "make_rows h (r # rs) =
     (case make_row h r of
        Inl e \<Rightarrow> Inl e
      | Inr row \<Rightarrow> (case make_rows h rs of Inl e \<Rightarrow> Inl e | Inr rows \<Rightarrow> Inr (row # rows)))"

definition compare_bom_and_list ::
  "(ustring set \<Rightarrow> ustring list) \<Rightarrow> BOMItem list \<Rightarrow> ListItem list \<Rightarrow> ustring \<Rightarrow> ustring
    \<Rightarrow> py_exc + Row list \<times> Stats" where
  "compare_bom_and_list h bom_items list_items list_label wo =
     (case compare_all_res h bom_items list_items wo of
        Inl e \<Rightarrow> Inl e
      | Inr all_res \<Rightarrow>
          (case make_rows h all_res of
             Inl e \<Rightarrow> Inl e
           | Inr rows \<Rightarrow> Inr (rows, make_stats all_res (length bom_items) list_label)))"

section \<open>Notions used to state the properties\<close>

text \<open>A checklist item whose part id does not clean to the empty string.\<close>

definition cleans_nonempty :: "ListItem \<Rightarrow> bool" where
  "cleans_nonempty item = (clean_part_number_str (ListItem.part_id item) \<noteq> [])"

definition items_of_id :: "ustring \<Rightarrow> ListItem list \<Rightarrow> ListItem list" where
  "items_of_id p items = filter (\<lambda>j. clean_part_number_str (ListItem.part_id j) = p) items"

definition old_items :: "part_lookup \<Rightarrow> ustring \<Rightarrow> ListItem list" where
  "old_items d p = (case map_of d p of None \<Rightarrow> [] | Some vs \<Rightarrow> vs)"

definition lookup_items :: "part_lookup \<Rightarrow> ustring \<Rightarrow> ListItem list" where
  "lookup_items lookup p = (case map_of lookup p of None \<Rightarrow> [] | Some its \<Rightarrow> its)"

definition bom_id_set :: "BOMItem list \<Rightarrow> ustring set" where
  "bom_id_set bom = (\<Union>b\<in>set bom. insert (clean_part_number_str (main_part_id b))
                       (clean_part_number_str ` set (substitute_ids b)))"

text \<open>
  The tolerance test on a difference \<open>d\<close>: \<open>d\<close> is finite and lies strictly between
  minus and plus the double nearest to 0.001, which is \<open>1152921504606847 / 2 ^ 60\<close>.
\<close>

definition within_tolerance :: "pyfloat \<Rightarrow> bool" where
  "within_tolerance d =
     (case d of
        Fin x \<Rightarrow> - (1152921504606847 / 1152921504606846976) < x
                 \<and> x < 1152921504606847 / 1152921504606846976
      | _ \<Rightarrow> False)"

definition is_finite :: "pyfloat \<Rightarrow> bool" where
  "is_finite d = (case d of Fin x \<Rightarrow> True | _ \<Rightarrow> False)"

text \<open>
  The checklist records that match a candidate id of a BOM line, in the order of the
  candidate ids: the records behind the actual quantity of the line.
\<close>

definition contributing_records :: "BOMItem \<Rightarrow> ListItem list \<Rightarrow> ListItem list" where
  "contributing_records b items =
     concat (map (\<lambda>p. if p = [] then [] else items_of_id p items) (bom_all_parts b))"

definition contributing_substitutes :: "BOMItem \<Rightarrow> ListItem list \<Rightarrow> ustring set" where
  "contributing_substitutes b items =
     {p \<in> set (bom_substitutes b). \<exists>i\<in>set items. clean_part_number_str (ListItem.part_id i) = p}"

text \<open>
  The checklist records behind the \<open>k\<close>-th output record: for the record of a BOM line
  the records that match its candidate ids, for a record of the reverse pass the records
  with the part id of the record.
\<close>

definition record_sources ::
  "BOMItem list \<Rightarrow> ListItem list \<Rightarrow> CompareResult list \<Rightarrow> nat \<Rightarrow> ListItem list" where
  "record_sources bom items all_res k =
     (if k < length bom then contributing_records (bom ! k) items
      else items_of_id (CompareResult.part_id (all_res ! k)) items)"

definition source_count ::
  "ListItem \<Rightarrow> BOMItem list \<Rightarrow> ListItem list \<Rightarrow> CompareResult list \<Rightarrow> nat" where
  "source_count i bom items all_res =
     length (filter (\<lambda>k. i \<in> set (record_sources bom items all_res k)) [0..<length all_res])"

text \<open>The float written \<open>q\<close>, and items for the examples.\<close>

definition ex_item :: "string \<Rightarrow> real \<Rightarrow> ListItem" where
  "ex_item p q =
     \<lparr>ListItem.part_id = asc p, quantity = round_double q, box_number = [], row_index = 1\<rparr>"

definition ex_bom :: "string \<Rightarrow> real \<Rightarrow> string list \<Rightarrow> BOMItem" where
  "ex_bom p q subs = \<lparr>main_part_id = asc p, quantity = round_double q,
     substitute_ids = map asc subs, name = [], row_index = 1\<rparr>"

definition sorted_order :: "ustring set \<Rightarrow> ustring list" where
  "sorted_order S = sorted_list_of_set S"

definition strip_subs :: "CompareResult \<Rightarrow> CompareResult" where
  "strip_subs r = r\<lparr>matched_substitutes := []\<rparr>"

definition rev_sorted_order :: "ustring set \<Rightarrow> ustring list" where
  "rev_sorted_order S = rev (sorted_list_of_set S)"

definition ex_boxed :: "string \<Rightarrow> real \<Rightarrow> ustring \<Rightarrow> ListItem" where
  "ex_boxed p q box =
     \<lparr>ListItem.part_id = asc p, quantity = round_double q, box_number = box, row_index = 1\<rparr>"

(* END-DEFINITIONS *)




section \<open>Properties of the reconciliation engine\<close>

subsection \<open>Items whose part id cleans to the empty string\<close>

lemma build_part_lookup_loop_filter:
  "build_part_lookup_loop (filter cleans_nonempty items) lookup = build_part_lookup_loop items lookup"
  by (induction items arbitrary: lookup) (simp_all add: cleans_nonempty_def Let_def)

lemma unmatched_loop_filter:
  "unmatched_loop (filter cleans_nonempty items) bom_all acc = unmatched_loop items bom_all acc"
  by (induction items arbitrary: acc) (simp_all add: cleans_nonempty_def Let_def)

lemma build_part_lookup_filter:
  "build_part_lookup (filter cleans_nonempty items) = build_part_lookup items"
  by (simp add: build_part_lookup_def build_part_lookup_loop_filter)

lemma find_unmatched_filter:
  "find_unmatched_list_items (filter cleans_nonempty items) bom_all wo
     = find_unmatched_list_items items bom_all wo"
  by (simp add: find_unmatched_list_items_def unmatched_loop_filter)

lemma compare_all_res_filter:
  "compare_all_res h bom (filter cleans_nonempty items) wo = compare_all_res h bom items wo"
  unfolding compare_all_res_def build_part_lookup_filter find_unmatched_filter ..

text \<open>
  C10. A checklist item whose part id cleans to the empty string leaves no trace in the
  output: the lookup of the forward pass, the records of the reverse pass and the whole
  result of \<open>compare_bom_and_list\<close> are the same as for the checklist without such items.
\<close>

theorem empty_part_id_excluded:
  "build_part_lookup (filter cleans_nonempty items) = build_part_lookup items
   \<and> find_unmatched_list_items (filter cleans_nonempty items) bom_all wo
       = find_unmatched_list_items items bom_all wo
   \<and> compare_bom_and_list h bom (filter cleans_nonempty items) lbl wo
       = compare_bom_and_list h bom items lbl wo"
  unfolding compare_bom_and_list_def compare_all_res_filter build_part_lookup_filter
    find_unmatched_filter by simp

subsection \<open>Grouping, matching and classification\<close>

lemma map_fst_dict_append:
  "map fst (dict_append k v d) = (if k \<in> fst ` set d then map fst d else map fst d @ [k])"
  by (induction d) force+

lemma map_of_dict_append:
  "map_of (dict_append k v d) =
     (map_of d)(k \<mapsto> (case map_of d k of None \<Rightarrow> [] | Some vs \<Rightarrow> vs) @ [v])"
  by (induction d) (auto simp: fun_eq_iff)

lemma distinct_dict_append:
  "distinct (map fst d) \<Longrightarrow> distinct (map fst (dict_append k v d))"
  by (simp add: map_fst_dict_append)

lemma unmatched_loop_distinct:
  "distinct (map fst acc) \<Longrightarrow> distinct (map fst (unmatched_loop items B acc))"
  by (induction items arbitrary: acc) (simp_all add: Let_def distinct_dict_append)

lemma unmatched_loop_keys:
  "fst ` set (unmatched_loop items B acc) =
     fst ` set acc \<union> {p. p \<noteq> [] \<and> p \<notin> B \<and> items_of_id p items \<noteq> []}"
proof (induction items arbitrary: acc)
  case Nil
  then show ?case by (simp add: items_of_id_def)
next
  case (Cons a items)
  have k: "fst ` set (dict_append k v d) = insert k (fst ` set d)" for k :: ustring and v :: ListItem and d
    by (induction d) force+
  show ?case
    by (auto simp: Let_def Cons.IH k items_of_id_def)
qed

lemma unmatched_loop_map_of:
  "map_of (unmatched_loop items B acc) p =
     (if p \<noteq> [] \<and> p \<notin> B \<and> items_of_id p items \<noteq> []
      then Some (old_items acc p @ items_of_id p items) else map_of acc p)"
proof (induction items arbitrary: acc)
  case Nil
  then show ?case by (simp add: items_of_id_def)
next
  case (Cons a items)
  show ?case
    by (auto simp: Let_def Cons.IH map_of_dict_append items_of_id_def old_items_def split: option.splits)
qed

lemma build_as_unmatched:
  "build_part_lookup_loop items acc = unmatched_loop items {} acc"
  by (induction items arbitrary: acc) (simp_all add: Let_def)

lemma map_of_build_part_lookup:
  "map_of (build_part_lookup items) p =
     (if p \<noteq> [] \<and> items_of_id p items \<noteq> [] then Some (items_of_id p items) else None)"
  by (simp add: build_part_lookup_def build_as_unmatched unmatched_loop_map_of old_items_def)

lemma match_loop_eq:
  "match_loop main lookup ps (mi, ms, ml) =
     (mi @ concat (map (lookup_items lookup) ps),
      ms \<union> {p \<in> set ps. p \<noteq> main \<and> map_of lookup p \<noteq> None},
      ml \<union> {p \<in> set ps. map_of lookup p \<noteq> None})"
  by (induction ps arbitrary: mi ms ml) (auto simp: lookup_items_def split: option.splits)

lemma bom_all_subs_eq:
  "bom_all_subs ss acc = acc \<union> (clean_part_number_str ` set ss - {[]})"
  by (induction ss arbitrary: acc) (auto simp: Let_def)

lemma bom_all_loop_eq:
  "bom_all_loop bom acc = acc \<union> (bom_id_set bom - {[]})"
  by (induction bom arbitrary: acc) (auto simp: Let_def bom_all_subs_eq bom_id_set_def)

lemma match_all_length:
  "match_all h bom lookup wo = Inr rs \<Longrightarrow> length rs = length bom"
  by (induction bom arbitrary: rs) (auto split: sum.splits)

lemma find_unmatched_props:
  fixes items B wo
  defines "rs \<equiv> find_unmatched_list_items items B wo"
  shows "distinct (map CompareResult.part_id rs)"
    and "set (map CompareResult.part_id rs) = {p. p \<noteq> [] \<and> p \<notin> B \<and> items_of_id p items \<noteq> []}"
    and "\<forall>r\<in>set rs. status r = NG_NOT_IN_BOM \<and> bom_quantity r = Fin 0
           \<and> matched_substitutes r = []
           \<and> actual_quantity r = py_sum (map ListItem.quantity (items_of_id (CompareResult.part_id r) items))
           \<and> difference r = actual_quantity r"
    and "\<forall>r\<in>set rs. box_sources r
           = filter (\<lambda>x. x \<noteq> []) (map box_number (items_of_id (CompareResult.part_id r) items))"
proof -
  let ?d = "unmatched_loop items B []"
  have pid: "map CompareResult.part_id rs = map fst ?d"
    by (simp add: rs_def find_unmatched_list_items_def unmatched_result_def split_def Let_def comp_def)
  have dist: "distinct (map fst ?d)" by (rule unmatched_loop_distinct) simp
  show "distinct (map CompareResult.part_id rs)" using pid dist by simp
  show "set (map CompareResult.part_id rs) = {p. p \<noteq> [] \<and> p \<notin> B \<and> items_of_id p items \<noteq> []}"
    using unmatched_loop_keys[of items B "[]"] by (simp add: pid)
  have grp: "\<exists>p. r = unmatched_result wo (p, items_of_id p items)" if "r \<in> set rs" for r
  proof -
    from that obtain p its where e: "(p, its) \<in> set ?d" and r: "r = unmatched_result wo (p, its)"
      by (auto simp: rs_def find_unmatched_list_items_def)
    from e dist have "map_of ?d p = Some its" by simp
    then have "its = items_of_id p items"
      by (simp add: unmatched_loop_map_of old_items_def split: if_splits)
    with r show ?thesis by blast
  qed
  show "\<forall>r\<in>set rs. status r = NG_NOT_IN_BOM \<and> bom_quantity r = Fin 0
           \<and> matched_substitutes r = []
           \<and> actual_quantity r = py_sum (map ListItem.quantity (items_of_id (CompareResult.part_id r) items))
           \<and> difference r = actual_quantity r"
  proof
    fix r assume "r \<in> set rs"
    from grp[OF this] obtain p where "r = unmatched_result wo (p, items_of_id p items)" ..
    then show "status r = NG_NOT_IN_BOM \<and> bom_quantity r = Fin 0
           \<and> matched_substitutes r = []
           \<and> actual_quantity r = py_sum (map ListItem.quantity (items_of_id (CompareResult.part_id r) items))
           \<and> difference r = actual_quantity r"
      by (simp add: unmatched_result_def Let_def)
  qed
  show "\<forall>r\<in>set rs. box_sources r
           = filter (\<lambda>x. x \<noteq> []) (map box_number (items_of_id (CompareResult.part_id r) items))"
  proof
    fix r assume "r \<in> set rs"
    from grp[OF this] obtain p where "r = unmatched_result wo (p, items_of_id p items)" ..
    then show "box_sources r
           = filter (\<lambda>x. x \<noteq> []) (map box_number (items_of_id (CompareResult.part_id r) items))"
      by (simp add: unmatched_result_def Let_def)
  qed
qed

lemma subs_not_main:
  "p \<in> set (bom_substitutes b) \<Longrightarrow> p \<noteq> clean_part_number_str (main_part_id b) \<and> p \<noteq> []"
  by (auto simp: bom_substitutes_def Let_def)

lemma all_parts_sub_set:
  "{p \<in> set (bom_all_parts b). p \<noteq> clean_part_number_str (main_part_id b) \<and> Q p}
     = {p \<in> set (bom_substitutes b). Q p}"
  using subs_not_main by (auto simp: bom_all_parts_def)

lemma match_loop_start:
  "match_loop (clean_part_number_str (main_part_id b)) lookup (bom_all_parts b) ([], {}, {}) =
     (concat (map (lookup_items lookup) (bom_all_parts b)),
      {p \<in> set (bom_substitutes b). map_of lookup p \<noteq> None},
      {p \<in> set (bom_all_parts b). map_of lookup p \<noteq> None})"
  by (simp add: match_loop_eq all_parts_sub_set)

lemma binary_exponent_numeral:
  "binary_exponent (numeral k) lo hi a =
     (if hi - lo \<le> 1 then lo
      else let mid = (lo + hi) div 2
           in if pow2 mid \<le> a then binary_exponent (pred_numeral k) mid hi a
              else binary_exponent (pred_numeral k) lo mid a)"
  by (simp add: numeral_eq_Suc)

lemmas rd_eval = round_double_def binary_exponent_numeral pow2_def round_half_even_def

lemma tolerance_literal: "round_double 0.001 = Fin (1152921504606847 / 1152921504606846976)"
  by (simp add: rd_eval Let_def)

lemma tolerance_test: "f_lt (f_abs d) (round_double 0.001) = within_tolerance d"
  unfolding tolerance_literal by (cases d) (auto simp: within_tolerance_def)

lemma format_number_finite: "is_finite d \<Longrightarrow> \<exists>t. format_number d = Inr t"
  by (cases d) (auto simp: is_finite_def)

lemma match_bom_item_eq:
  fixes h b lookup wo
  defines "mi \<equiv> concat (map (lookup_items lookup) (bom_all_parts b))"
  defines "ms \<equiv> {p \<in> set (bom_substitutes b). map_of lookup p \<noteq> None}"
  shows "match_bom_item h b lookup wo =
     (case (if mi = [] then Inr (NG_MISSING, [remark_missing])
            else if within_tolerance (f_sub (py_sum (map ListItem.quantity mi)) (BOMItem.quantity b))
            then (if ms \<noteq> {}
                  then Inr (OK_WITH_SUB,
                            [remark_use_sub @ py_join (asc '', '') (sort_key (\<lambda>x. x) (h ms))])
                  else Inr (OK, []))
            else
              (case format_number (f_sub (py_sum (map ListItem.quantity mi)) (BOMItem.quantity b)) of
                 Inl e \<Rightarrow> Inl e
               | Inr d \<Rightarrow>
                   Inr (NG_QTY_DIFF,
                     [(if f_lt (Fin 0) (f_sub (py_sum (map ListItem.quantity mi)) (BOMItem.quantity b))
                       then remark_excess else remark_short) @ d]
                     @ (if ms \<noteq> {}
                        then [remark_with_sub @ py_join (asc '', '') (sort_key (\<lambda>x. x) (h ms))]
                        else [])))) of
        Inl e \<Rightarrow> Inl e
      | Inr (st, remarks) \<Rightarrow>
          Inr \<lparr>compare_result =
                 \<lparr>work_order = wo, part_id = clean_part_number_str (main_part_id b),
                  part_name = name b, bom_quantity = BOMItem.quantity b,
                  actual_quantity = py_sum (map ListItem.quantity mi),
                  difference = f_sub (py_sum (map ListItem.quantity mi)) (BOMItem.quantity b),
                  status = st,
                  box_sources = filter (\<lambda>x. x \<noteq> []) (map box_number mi),
                  matched_substitutes = h ms,
                  remark = (if remarks \<noteq> [] then py_join (asc ''; '') remarks else [])\<rparr>,
                matched_part_ids = {p \<in> set (bom_all_parts b). map_of lookup p \<noteq> None}\<rparr>)"
  unfolding match_bom_item_def Let_def match_loop_start prod.case tolerance_test mi_def ms_def
  by (rule refl)

lemma match_bom_item_Inr:
  assumes "match_bom_item h b lookup wo = Inr mr"
  defines "r \<equiv> compare_result mr"
  defines "mi \<equiv> concat (map (lookup_items lookup) (bom_all_parts b))"
  defines "ms \<equiv> {p \<in> set (bom_substitutes b). map_of lookup p \<noteq> None}"
  shows "CompareResult.part_id r = clean_part_number_str (main_part_id b)"
    and "actual_quantity r = py_sum (map ListItem.quantity mi)"
    and "difference r = f_sub (actual_quantity r) (BOMItem.quantity b)"
    and "bom_quantity r = BOMItem.quantity b"
    and "matched_substitutes r = h ms"
    and "box_sources r = filter (\<lambda>x. x \<noteq> []) (map box_number mi)"
    and "status r = (if mi = [] then NG_MISSING
                     else if within_tolerance (difference r)
                          then (if ms \<noteq> {} then OK_WITH_SUB else OK)
                          else NG_QTY_DIFF)"
    and "status r = OK_WITH_SUB \<Longrightarrow>
           remark r = remark_use_sub @ py_join (asc '', '') (sort_key (\<lambda>x. x) (h ms))"
    and "matched_part_ids mr = {p \<in> set (bom_all_parts b). map_of lookup p \<noteq> None}"
proof -
  let ?actual = "py_sum (map ListItem.quantity mi)"
  let ?diff = "f_sub ?actual (BOMItem.quantity b)"
  let ?subl = "py_join (asc '', '') (sort_key (\<lambda>x. x) (h ms))"
  let ?judged = "(if mi = [] then Inr (NG_MISSING, [remark_missing])
             else if within_tolerance ?diff then
               (if ms \<noteq> {} then Inr (OK_WITH_SUB, [remark_use_sub @ ?subl])
                else Inr (OK, []))
             else
               (case format_number ?diff of
                  Inl e \<Rightarrow> Inl e
                | Inr d \<Rightarrow>
                    Inr (NG_QTY_DIFF,
                      [(if f_lt (Fin 0) ?diff then remark_excess else remark_short) @ d]
                      @ (if ms \<noteq> {} then [remark_with_sub @ ?subl] else []))))"
  note eq = match_bom_item_eq[of h b lookup wo, folded mi_def ms_def]
  from assms(1) obtain st remarks where j: "?judged = Inr (st, remarks)"
    and mr: "mr = \<lparr>compare_result =
                    \<lparr>work_order = wo, part_id = clean_part_number_str (main_part_id b),
                     part_name = name b,
                     bom_quantity = BOMItem.quantity b, actual_quantity = ?actual,
                     difference = ?diff, status = st,
                     box_sources = filter (\<lambda>x. x \<noteq> []) (map box_number mi),
                     matched_substitutes = h ms,
                     remark = (if remarks \<noteq> [] then py_join (asc ''; '') remarks else [])\<rparr>,
                   matched_part_ids = {p \<in> set (bom_all_parts b). map_of lookup p \<noteq> None}\<rparr>"
    unfolding eq by (auto split: sum.splits prod.splits)
  show "CompareResult.part_id r = clean_part_number_str (main_part_id b)"
    and "actual_quantity r = py_sum (map ListItem.quantity mi)"
    and "difference r = f_sub (actual_quantity r) (BOMItem.quantity b)"
    and "bom_quantity r = BOMItem.quantity b"
    and "matched_substitutes r = h ms"
    and "box_sources r = filter (\<lambda>x. x \<noteq> []) (map box_number mi)"
    and "matched_part_ids mr = {p \<in> set (bom_all_parts b). map_of lookup p \<noteq> None}"
    by (simp_all add: r_def mr)
  have st: "status r = st" and rem: "remark r = (if remarks \<noteq> [] then py_join (asc ''; '') remarks else [])"
    and dif: "difference r = ?diff"
    by (simp_all add: r_def mr)
  show "status r = (if mi = [] then NG_MISSING
                     else if within_tolerance (difference r)
                          then (if ms \<noteq> {} then OK_WITH_SUB else OK)
                          else NG_QTY_DIFF)"
    using j unfolding st dif by (auto split: if_splits sum.splits)
  show "remark r = remark_use_sub @ py_join (asc '', '') (sort_key (\<lambda>x. x) (h ms))"
    if "status r = OK_WITH_SUB"
    using j that unfolding st rem by (auto split: if_splits sum.splits)
qed

lemma match_bom_item_returns:
  assumes "concat (map (lookup_items lookup) (bom_all_parts b)) = []
           \<or> is_finite (f_sub (py_sum (map ListItem.quantity
                  (concat (map (lookup_items lookup) (bom_all_parts b))))) (BOMItem.quantity b))"
  shows "\<exists>mr. match_bom_item h b lookup wo = Inr mr"
proof -
  let ?mi = "concat (map (lookup_items lookup) (bom_all_parts b))"
  let ?diff = "f_sub (py_sum (map ListItem.quantity ?mi)) (BOMItem.quantity b)"
  consider "?mi = []" | "?mi \<noteq> []" "within_tolerance ?diff"
    | t where "?mi \<noteq> []" "\<not> within_tolerance ?diff" "format_number ?diff = Inr t"
    using assms format_number_finite[of ?diff] by blast
  then show ?thesis
  proof cases
    case 1
    then show ?thesis unfolding match_bom_item_eq by simp
  next
    case 2
    then show ?thesis unfolding match_bom_item_eq by simp
  next
    case 3
    then show ?thesis unfolding match_bom_item_eq by simp
  qed
qed

lemma within_tolerance_finite: "within_tolerance d \<Longrightarrow> is_finite d"
  by (cases d) (simp_all add: within_tolerance_def is_finite_def)

lemma items_of_id_nonempty:
  "items_of_id p items \<noteq> [] \<longleftrightarrow> (\<exists>i\<in>set items. clean_part_number_str (ListItem.part_id i) = p)"
  by (auto simp: items_of_id_def filter_empty_conv)

lemma lookup_items_build:
  "lookup_items (build_part_lookup items) p = (if p = [] then [] else items_of_id p items)"
  by (simp add: lookup_items_def map_of_build_part_lookup)

lemma matched_items_contributing:
  "concat (map (lookup_items (build_part_lookup items)) (bom_all_parts b))
     = contributing_records b items"
proof -
  have "lookup_items (build_part_lookup items) = (\<lambda>p. if p = [] then [] else items_of_id p items)"
    by (rule ext) (rule lookup_items_build)
  then show ?thesis by (simp only: contributing_records_def)
qed

lemma matched_subs_build:
  "{p \<in> set (bom_substitutes b). map_of (build_part_lookup items) p \<noteq> None}
     = contributing_substitutes b items"
  using subs_not_main[of _ b]
  by (auto simp: map_of_build_part_lookup contributing_substitutes_def items_of_id_nonempty)

lemma sort_iteration_order:
  assumes "iteration_order h" "finite S"
  shows "sort_key (\<lambda>x. x) (h S) = sorted_list_of_set S"
proof -
  from assms have "set (h S) = S" "distinct (h S)" by (auto simp: iteration_order_def)
  then show ?thesis
    by (metis distinct_remdups_id sorted_list_of_set_sort_remdups)
qed

lemma finite_contributing: "finite (contributing_substitutes b items)"
  by (simp add: contributing_substitutes_def)

lemma status_rules_general:
  assumes "iteration_order h"
    and "match_bom_item h b (build_part_lookup items) wo = Inr mr"
  shows "status (compare_result mr) =
           (if contributing_records b items = [] then NG_MISSING
            else if within_tolerance (difference (compare_result mr))
                    \<and> contributing_substitutes b items \<noteq> {} then OK_WITH_SUB
            else if within_tolerance (difference (compare_result mr)) then OK
            else NG_QTY_DIFF)"
    and "status (compare_result mr) = OK_WITH_SUB \<longrightarrow>
           remark (compare_result mr)
             = remark_use_sub @ py_join (asc '', '') (sorted_list_of_set (contributing_substitutes b items))"
    and "actual_quantity (compare_result mr)
           = py_sum (map ListItem.quantity (contributing_records b items))"
    and "difference (compare_result mr)
           = f_sub (py_sum (map ListItem.quantity (contributing_records b items)))
               (BOMItem.quantity b)"
proof -
  note m = match_bom_item_Inr[OF assms(2)]
  show "status (compare_result mr) =
           (if contributing_records b items = [] then NG_MISSING
            else if within_tolerance (difference (compare_result mr))
                    \<and> contributing_substitutes b items \<noteq> {} then OK_WITH_SUB
            else if within_tolerance (difference (compare_result mr)) then OK
            else NG_QTY_DIFF)"
    using m(7)[unfolded matched_items_contributing matched_subs_build] by simp
  show "status (compare_result mr) = OK_WITH_SUB \<longrightarrow>
           remark (compare_result mr)
             = remark_use_sub @ py_join (asc '', '') (sorted_list_of_set (contributing_substitutes b items))"
    using m(8)[unfolded matched_subs_build sort_iteration_order[OF assms(1) finite_contributing]]
    by simp
  show a: "actual_quantity (compare_result mr)
           = py_sum (map ListItem.quantity (contributing_records b items))"
    using m(2)[unfolded matched_items_contributing] .
  show "difference (compare_result mr)
           = f_sub (py_sum (map ListItem.quantity (contributing_records b items)))
               (BOMItem.quantity b)"
    using m(3) unfolding a .
qed

lemma status_rules_returns:
  assumes "contributing_records b items = []
           \<or> is_finite (f_sub (py_sum (map ListItem.quantity (contributing_records b items)))
                 (BOMItem.quantity b))"
  shows "\<exists>mr. match_bom_item h b (build_part_lookup items) wo = Inr mr"
  by (rule match_bom_item_returns) (use assms in \<open>simp only: matched_items_contributing\<close>)

lemma match_all_rel:
  "match_all h bom lookup wo = Inr rs \<Longrightarrow>
     list_all2 (\<lambda>b r. \<exists>mr. match_bom_item h b lookup wo = Inr mr \<and> r = compare_result mr) bom rs"
  by (induction bom arbitrary: rs) (auto split: sum.splits)

lemma clean_part_number_str_Nil: "clean_part_number_str [] = []"
  by (simp add: clean_part_number_str_def clean_text_def py_endswith_def asc_def py_strip_def
      lstrip_char_def remove_char_def)

lemma set_bom_all_parts:
  "set (bom_all_parts b) - {[]}
     = insert (clean_part_number_str (main_part_id b))
         (clean_part_number_str ` set (substitute_ids b)) - {[]}"
proof -
  have "clean_part_number_str s \<noteq> [] \<Longrightarrow> s \<noteq> []" for s
    using clean_part_number_str_Nil by auto
  then show ?thesis
    by (auto simp: bom_all_parts_def bom_substitutes_def Let_def)
qed

lemma in_bom_id_set_iff:
  assumes "p \<noteq> []"
  shows "p \<in> bom_id_set bom \<longleftrightarrow> (\<exists>b\<in>set bom. p \<in> set (bom_all_parts b))"
proof -
  have "p \<in> bom_id_set bom \<longleftrightarrow> (\<exists>b\<in>set bom. p \<in> insert (clean_part_number_str (main_part_id b))
         (clean_part_number_str ` set (substitute_ids b)) - {[]})"
    using assms by (auto simp: bom_id_set_def)
  also have "\<dots> \<longleftrightarrow> (\<exists>b\<in>set bom. p \<in> set (bom_all_parts b) - {[]})"
    by (simp only: set_bom_all_parts)
  finally show ?thesis using assms by auto
qed

lemma in_contributing_records:
  "i \<in> set (contributing_records b items) \<longleftrightarrow>
     i \<in> set items \<and> cleans_nonempty i
     \<and> clean_part_number_str (ListItem.part_id i) \<in> set (bom_all_parts b)"
  by (auto simp: contributing_records_def items_of_id_def cleans_nonempty_def)

lemma in_items_of_id:
  "i \<in> set (items_of_id p items) \<longleftrightarrow> i \<in> set items \<and> clean_part_number_str (ListItem.part_id i) = p"
  by (auto simp: items_of_id_def)

lemma filter_upt_add:
  "length (filter R [0..<n + m]) = length (filter R [0..<n]) + length (filter (\<lambda>j. R (n + j)) [0..<m])"
  by (induction m) simp_all

lemma filter_upt_nth:
  "length (filter (\<lambda>k. Q (xs ! k)) [0..<length xs]) = length (filter Q xs)"
proof -
  have "filter Q xs = filter Q (map (nth xs) [0..<length xs])" by (simp only: map_nth)
  also have "\<dots> = map (nth xs) (filter (\<lambda>k. Q (xs ! k)) [0..<length xs])"
    by (simp add: filter_map comp_def)
  finally show ?thesis by (metis length_map)
qed

lemma count_extra:
  assumes "distinct (map CompareResult.part_id rs)"
  shows "length (filter (\<lambda>r. CompareResult.part_id r = p) rs)
           = (if p \<in> set (map CompareResult.part_id rs) then 1 else 0)"
  using assms
proof (induction rs)
  case Nil
  then show ?case by simp
next
  case (Cons a rs)
  have "p \<notin> CompareResult.part_id ` set rs \<Longrightarrow> filter (\<lambda>r. CompareResult.part_id r = p) rs = []"
    by (auto simp: filter_empty_conv)
  with Cons show ?case by auto
qed

lemma finite_matched_subs: "finite {p \<in> set (bom_substitutes b). Q p}"
  by simp

lemma bom_status_not_extra:
  assumes "match_bom_item h b lookup wo = Inr mr"
  shows "status (compare_result mr) \<noteq> NG_NOT_IN_BOM"
  using match_bom_item_Inr(7)[OF assms] by (simp split: if_splits)

text \<open>
  C2. When the engine returns, the result has at least as many records as the BOM has
  lines. The actual quantity and the box sources of every record are those of the
  checklist records behind it (\<open>record_sources\<close>), and a record is \<open>NG_NOT_IN_BOM\<close>
  exactly when it comes after the records of the BOM lines. A checklist record whose
  cleaned part id is not empty is behind one record for every BOM line whose candidate ids
  contain its id, plus one record when its id is not a BOM id; so it is behind at least
  one record, and when its id is not a BOM id behind exactly one, which is
  \<open>NG_NOT_IN_BOM\<close>. A checklist record whose id cleans to the empty string is behind no
  record.
\<close>

theorem representation_count:
  assumes res: "compare_all_res h bom items wo = Inr all_res"
  shows "length bom \<le> length all_res
    \<and> (\<forall>k<length all_res.
          actual_quantity (all_res ! k)
            = py_sum (map ListItem.quantity (record_sources bom items all_res k))
          \<and> box_sources (all_res ! k)
            = filter (\<lambda>x. x \<noteq> []) (map box_number (record_sources bom items all_res k))
          \<and> (status (all_res ! k) = NG_NOT_IN_BOM \<longleftrightarrow> length bom \<le> k))
    \<and> (\<forall>i\<in>set items. cleans_nonempty i \<longrightarrow>
          source_count i bom items all_res
            = length (filter (\<lambda>b. clean_part_number_str (ListItem.part_id i) \<in> set (bom_all_parts b)) bom)
              + (if clean_part_number_str (ListItem.part_id i) \<in> bom_id_set bom then 0 else 1)
          \<and> 1 \<le> source_count i bom items all_res
          \<and> (clean_part_number_str (ListItem.part_id i) \<notin> bom_id_set bom \<longrightarrow>
                source_count i bom items all_res = 1
                \<and> (\<forall>k<length all_res. i \<in> set (record_sources bom items all_res k)
                       \<longrightarrow> status (all_res ! k) = NG_NOT_IN_BOM)))
    \<and> (\<forall>i\<in>set items. \<not> cleans_nonempty i \<longrightarrow> source_count i bom items all_res = 0)"
proof -
  let ?lk = "build_part_lookup items"
  let ?B = "bom_all_loop bom {}"
  let ?extra = "find_unmatched_list_items items ?B wo"
  let ?src = "record_sources bom items all_res"
  from res obtain brs where brs: "match_all h bom ?lk wo = Inr brs" and all: "all_res = brs @ ?extra"
    by (auto simp: compare_all_res_def Let_def split: sum.splits)
  have len: "length brs = length bom" by (rule match_all_length[OF brs])
  have B: "?B = bom_id_set bom - {[]}" by (simp add: bom_all_loop_eq)
  note ex = find_unmatched_props[of items ?B wo]
  have n: "length all_res = length bom + length ?extra" by (simp add: all len)
  have front: "\<exists>mr. match_bom_item h (bom ! k) ?lk wo = Inr mr \<and> all_res ! k = compare_result mr"
    if "k < length bom" for k
    using list_all2_nthD[OF match_all_rel[OF brs] that] that by (simp add: all len nth_append)
  have tail_nth: "all_res ! (length bom + j) = ?extra ! j" for j
    by (simp add: all len[symmetric] nth_append)
  have back_in: "all_res ! k \<in> set ?extra" if "length bom \<le> k" "k < length all_res" for k
  proof -
    from that have "k - length bom < length ?extra" by (simp add: n)
    then have "?extra ! (k - length bom) \<in> set ?extra" by (rule nth_mem)
    with tail_nth[of "k - length bom"] that(1) show ?thesis by simp
  qed
  have rec: "actual_quantity (all_res ! k) = py_sum (map ListItem.quantity (?src k))
          \<and> box_sources (all_res ! k) = filter (\<lambda>x. x \<noteq> []) (map box_number (?src k))
          \<and> (status (all_res ! k) = NG_NOT_IN_BOM \<longleftrightarrow> length bom \<le> k)"
    if k: "k < length all_res" for k
  proof (cases "k < length bom")
    case True
    from front[OF True] obtain mr where mr: "match_bom_item h (bom ! k) ?lk wo = Inr mr"
      and r: "all_res ! k = compare_result mr" by blast
    note m = match_bom_item_Inr[OF mr, unfolded matched_items_contributing]
    show ?thesis
      using m(2) m(6) bom_status_not_extra[OF mr] True by (simp add: r record_sources_def)
  next
    case False
    then have "all_res ! k \<in> set ?extra" using back_in k by simp
    with ex(3) ex(4) False show ?thesis by (simp add: record_sources_def)
  qed
  have cnt: "source_count i bom items all_res
            = length (filter (\<lambda>b. clean_part_number_str (ListItem.part_id i) \<in> set (bom_all_parts b)) bom)
              + (if clean_part_number_str (ListItem.part_id i) \<in> bom_id_set bom then 0 else 1)"
    if i: "i \<in> set items" "cleans_nonempty i" for i
  proof -
    let ?p = "clean_part_number_str (ListItem.part_id i)"
    have p: "?p \<noteq> []" using i(2) by (simp add: cleans_nonempty_def)
    have 1: "filter (\<lambda>k. i \<in> set (?src k)) [0..<length bom]
           = filter (\<lambda>k. ?p \<in> set (bom_all_parts (bom ! k))) [0..<length bom]"
      by (rule filter_cong) (use i in \<open>simp_all add: record_sources_def in_contributing_records\<close>)
    have 2: "filter (\<lambda>j. i \<in> set (?src (length bom + j))) [0..<length ?extra]
           = filter (\<lambda>j. CompareResult.part_id (?extra ! j) = ?p) [0..<length ?extra]"
      by (rule filter_cong) (use i in \<open>auto simp add: record_sources_def in_items_of_id tail_nth\<close>)
    have 3: "length (filter (\<lambda>r. CompareResult.part_id r = ?p) ?extra)
           = (if ?p \<in> bom_id_set bom then 0 else 1)"
      using count_extra[OF ex(1), of ?p] ex(2) p i(1) by (auto simp: B items_of_id_nonempty)
    have "source_count i bom items all_res
        = length (filter (\<lambda>k. i \<in> set (?src k)) [0..<length bom])
          + length (filter (\<lambda>j. i \<in> set (?src (length bom + j))) [0..<length ?extra])"
      unfolding source_count_def n by (rule filter_upt_add)
    also have "\<dots> = length (filter (\<lambda>b. ?p \<in> set (bom_all_parts b)) bom)
          + length (filter (\<lambda>r. CompareResult.part_id r = ?p) ?extra)"
      unfolding 1 2
      using filter_upt_nth[of "\<lambda>b. ?p \<in> set (bom_all_parts b)" bom]
        filter_upt_nth[of "\<lambda>r. CompareResult.part_id r = ?p" ?extra]
      by simp
    finally show ?thesis unfolding 3 .
  qed
  have pos: "1 \<le> source_count i bom items all_res" if i: "i \<in> set items" "cleans_nonempty i" for i
  proof (cases "clean_part_number_str (ListItem.part_id i) \<in> bom_id_set bom")
    case True
    have "clean_part_number_str (ListItem.part_id i) \<noteq> []"
      using i(2) by (simp add: cleans_nonempty_def)
    from True in_bom_id_set_iff[OF this]
    obtain b where "b \<in> set bom" "clean_part_number_str (ListItem.part_id i) \<in> set (bom_all_parts b)"
      by auto
    then have "filter (\<lambda>b. clean_part_number_str (ListItem.part_id i) \<in> set (bom_all_parts b)) bom \<noteq> []"
      by (auto simp: filter_empty_conv)
    then show ?thesis unfolding cnt[OF i] by (simp add: Suc_le_eq)
  next
    case False
    then show ?thesis unfolding cnt[OF i] by simp
  qed
  have alone: "source_count i bom items all_res = 1
                \<and> (\<forall>k<length all_res. i \<in> set (?src k) \<longrightarrow> status (all_res ! k) = NG_NOT_IN_BOM)"
    if i: "i \<in> set items" "cleans_nonempty i"
      and nb: "clean_part_number_str (ListItem.part_id i) \<notin> bom_id_set bom" for i
  proof -
    have p: "clean_part_number_str (ListItem.part_id i) \<noteq> []"
      using i(2) by (simp add: cleans_nonempty_def)
    have no: "clean_part_number_str (ListItem.part_id i) \<notin> set (bom_all_parts b)" if "b \<in> set bom" for b
      using nb in_bom_id_set_iff[OF p, of bom] that by blast
    then have "filter (\<lambda>b. clean_part_number_str (ListItem.part_id i) \<in> set (bom_all_parts b)) bom = []"
      by (simp add: filter_empty_conv)
    then have one: "source_count i bom items all_res = 1" unfolding cnt[OF i(1,2)] using nb by simp
    have "status (all_res ! k) = NG_NOT_IN_BOM" if k: "k < length all_res" "i \<in> set (?src k)" for k
    proof (cases "k < length bom")
      case True
      then have "bom ! k \<in> set bom" by simp
      from no[OF this] k(2) True show ?thesis
        by (simp add: record_sources_def in_contributing_records)
    next
      case False
      then show ?thesis using rec[OF k(1)] by simp
    qed
    with one show ?thesis by blast
  qed
  have none: "source_count i bom items all_res = 0" if i: "\<not> cleans_nonempty i" for i
  proof -
    have "i \<notin> set (?src k)" if k: "k < length all_res" for k
    proof (cases "k < length bom")
      case True
      then show ?thesis using i by (simp add: record_sources_def in_contributing_records)
    next
      case False
      then have "all_res ! k \<in> set ?extra" using back_in k by simp
      then have "CompareResult.part_id (all_res ! k) \<in> set (map CompareResult.part_id ?extra)"
        by simp
      then have "CompareResult.part_id (all_res ! k) \<noteq> []" unfolding ex(2) by simp
      then show ?thesis
        using i False by (auto simp: record_sources_def in_items_of_id cleans_nonempty_def)
    qed
    then show ?thesis by (simp add: source_count_def filter_empty_conv)
  qed
  have l: "length bom \<le> length all_res" by (simp add: n)
  show ?thesis using l rec cnt pos alone none by blast
qed

lemmas str_eval = asc_def py_endswith_def py_strip_def py_isspace_def lstrip_char_def remove_char_def
  invisible_part_char_def clean_text_def clean_part_number_str_def py_startswith_def

lemmas engine_eval = build_part_lookup_def match_bom_item_def bom_all_parts_def bom_substitutes_def
  py_sum_def f_sub_def Let_def ex_item_def ex_bom_def rd_eval

lemma tolerance_ok:
  "map_sum id (status \<circ> compare_result)
     (match_bom_item h (ex_bom ''1001'' 10 []) (build_part_lookup [ex_item ''1001'' 10.0009]) [])
   = Inr OK"
  by (simp add: str_eval engine_eval)

lemma tolerance_ng:
  "map_sum id (status \<circ> compare_result)
     (match_bom_item h (ex_bom ''1001'' 10 []) (build_part_lookup [ex_item ''1001'' 10.002]) [])
   = Inr NG_QTY_DIFF"
  by (simp add: str_eval engine_eval trunc_real_def)

lemma tolerance_short_ok:
  "map_sum id (status \<circ> compare_result)
     (match_bom_item h (ex_bom ''1001'' 10 []) (build_part_lookup [ex_item ''1001'' 9.9995]) [])
   = Inr OK"
  by (simp add: str_eval engine_eval)

lemma tolerance_short_ng:
  "map_sum id (status \<circ> compare_result)
     (match_bom_item h (ex_bom ''1001'' 10 []) (build_part_lookup [ex_item ''1001'' 9.998]) [])
   = Inr NG_QTY_DIFF"
  by (simp add: str_eval engine_eval trunc_real_def)

lemma substitute_partial:
  "map_sum id (status \<circ> compare_result)
     (match_bom_item h (ex_bom ''1001'' 5 [''2002''])
        (build_part_lookup [ex_item ''1001'' 3, ex_item ''2002'' 2]) [])
   = Inr OK_WITH_SUB"
  by (simp add: str_eval engine_eval)

lemma substitute_only:
  "iteration_order h \<Longrightarrow> map_sum id ((\<lambda>r. (status r, actual_quantity r, remark r)) \<circ> compare_result)
     (match_bom_item h (ex_bom ''1001'' 5 [''2002''])
        (build_part_lookup [ex_item ''2002'' 5]) [])
   = Inr (OK_WITH_SUB, Fin 5, remark_use_sub @ asc ''2002'')"
  using sort_iteration_order[of h "{asc ''2002''}"]
  by (simp add: str_eval engine_eval)

subsection \<open>The claims about the engine\<close>

lemma iteration_order_sorted_order: "iteration_order sorted_order"
  by (simp add: iteration_order_def sorted_order_def)

lemmas all_res_eval = compare_all_res_def find_unmatched_list_items_def unmatched_result_def
  sorted_order_def

text \<open>
  C1. Whenever \<open>match_bom_item\<close> returns a record for a BOM line and the lookup of a
  checklist, its status is chosen by the first rule that applies, in this order: no
  checklist record matched a candidate id: \<open>NG_MISSING\<close>; the difference is within the
  tolerance and some substitute id contributed a record: \<open>OK_WITH_SUB\<close>, and the remark
  lists the contributing substitute ids sorted; the difference is within the tolerance:
  \<open>OK\<close>; otherwise \<open>NG_QTY_DIFF\<close>. The actual quantity is the sum of the quantities of
  the matching records, the difference is the actual quantity minus the BOM quantity, both
  rounded as doubles, and the tolerance is the double nearest to 0.001. A record is returned
  whenever no record matched or the difference is finite. BOM quantity 10 with actual
  10.0009 or 9.9995 is \<open>OK\<close>, with actual 10.002 or 9.998 it is \<open>NG_QTY_DIFF\<close>; main id
  1001 with 3 and substitute 2002 with 2 against BOM quantity 5 is \<open>OK_WITH_SUB\<close>, and so
  is substitute 2002 alone with 5, whose remark names 2002.
\<close>

theorem status_rules:
  "(\<forall>h b items wo.
      iteration_order h \<longrightarrow>
        (contributing_records b items = []
           \<or> is_finite (f_sub (py_sum (map ListItem.quantity (contributing_records b items)))
                 (BOMItem.quantity b))
          \<longrightarrow> (\<exists>mr. match_bom_item h b (build_part_lookup items) wo = Inr mr))
        \<and> (\<forall>mr. match_bom_item h b (build_part_lookup items) wo = Inr mr \<longrightarrow>
              actual_quantity (compare_result mr)
                = py_sum (map ListItem.quantity (contributing_records b items))
              \<and> difference (compare_result mr)
                = f_sub (py_sum (map ListItem.quantity (contributing_records b items)))
                    (BOMItem.quantity b)
              \<and> status (compare_result mr) =
                 (if contributing_records b items = [] then NG_MISSING
                  else if within_tolerance (difference (compare_result mr))
                          \<and> contributing_substitutes b items \<noteq> {} then OK_WITH_SUB
                  else if within_tolerance (difference (compare_result mr)) then OK
                  else NG_QTY_DIFF)
              \<and> (status (compare_result mr) = OK_WITH_SUB \<longrightarrow>
                   remark (compare_result mr)
                     = remark_use_sub
                       @ py_join (asc '', '')
                           (sorted_list_of_set (contributing_substitutes b items)))))
   \<and> (\<forall>h. map_sum id (status \<circ> compare_result)
          (match_bom_item h (ex_bom ''1001'' 10 []) (build_part_lookup [ex_item ''1001'' 10.0009]) [])
        = Inr OK)
   \<and> (\<forall>h. map_sum id (status \<circ> compare_result)
          (match_bom_item h (ex_bom ''1001'' 10 []) (build_part_lookup [ex_item ''1001'' 10.002]) [])
        = Inr NG_QTY_DIFF)
   \<and> (\<forall>h. map_sum id (status \<circ> compare_result)
          (match_bom_item h (ex_bom ''1001'' 10 []) (build_part_lookup [ex_item ''1001'' 9.9995]) [])
        = Inr OK)
   \<and> (\<forall>h. map_sum id (status \<circ> compare_result)
          (match_bom_item h (ex_bom ''1001'' 10 []) (build_part_lookup [ex_item ''1001'' 9.998]) [])
        = Inr NG_QTY_DIFF)
   \<and> (\<forall>h. map_sum id (status \<circ> compare_result)
          (match_bom_item h (ex_bom ''1001'' 5 [''2002''])
             (build_part_lookup [ex_item ''1001'' 3, ex_item ''2002'' 2]) [])
        = Inr OK_WITH_SUB)
   \<and> (\<forall>h. iteration_order h \<longrightarrow>
          map_sum id ((\<lambda>r. (status r, actual_quantity r, remark r)) \<circ> compare_result)
            (match_bom_item h (ex_bom ''1001'' 5 [''2002''])
               (build_part_lookup [ex_item ''2002'' 5]) [])
          = Inr (OK_WITH_SUB, Fin 5, remark_use_sub @ asc ''2002''))"
proof -
  have g: "(contributing_records b items = []
           \<or> is_finite (f_sub (py_sum (map ListItem.quantity (contributing_records b items)))
                 (BOMItem.quantity b))
          \<longrightarrow> (\<exists>mr. match_bom_item h b (build_part_lookup items) wo = Inr mr))
        \<and> (\<forall>mr. match_bom_item h b (build_part_lookup items) wo = Inr mr \<longrightarrow>
              actual_quantity (compare_result mr)
                = py_sum (map ListItem.quantity (contributing_records b items))
              \<and> difference (compare_result mr)
                = f_sub (py_sum (map ListItem.quantity (contributing_records b items)))
                    (BOMItem.quantity b)
              \<and> status (compare_result mr) =
                 (if contributing_records b items = [] then NG_MISSING
                  else if within_tolerance (difference (compare_result mr))
                          \<and> contributing_substitutes b items \<noteq> {} then OK_WITH_SUB
                  else if within_tolerance (difference (compare_result mr)) then OK
                  else NG_QTY_DIFF)
              \<and> (status (compare_result mr) = OK_WITH_SUB \<longrightarrow>
                   remark (compare_result mr)
                     = remark_use_sub
                       @ py_join (asc '', '')
                           (sorted_list_of_set (contributing_substitutes b items))))"
    if "iteration_order h" for h b items wo
    using status_rules_returns[of b items h wo] status_rules_general[OF that, of b items wo]
    by blast
  show ?thesis
    using g tolerance_ok tolerance_ng tolerance_short_ok tolerance_short_ng substitute_partial
      substitute_only
    by blast
qed

theorem status_rules_witness:
  "iteration_order sorted_order
   \<and> (\<exists>mr. match_bom_item sorted_order (ex_bom ''1001'' 5 [''2002''])
               (build_part_lookup [ex_item ''1001'' 3, ex_item ''2002'' 2]) [] = Inr mr
          \<and> actual_quantity (compare_result mr) = Fin 5
          \<and> difference (compare_result mr) = Fin 0
          \<and> status (compare_result mr) = OK_WITH_SUB
          \<and> remark (compare_result mr) = remark_use_sub @ asc ''2002'')"
proof -
  let ?b = "ex_bom ''1001'' 5 [''2002'']"
  let ?items = "[ex_item ''1001'' 3, ex_item ''2002'' 2]"
  have rc: "contributing_records ?b ?items = ?items"
    by (simp add: contributing_records_def items_of_id_def str_eval engine_eval)
  have c: "contributing_substitutes ?b ?items = {asc ''2002''}"
    by (auto simp: contributing_substitutes_def str_eval engine_eval)
  have act: "py_sum (map ListItem.quantity ?items) = Fin 5"
    by (simp add: engine_eval)
  have dif: "f_sub (Fin 5) (BOMItem.quantity ?b) = Fin 0"
    by (simp add: engine_eval)
  have fin: "is_finite (Fin 0)" and tol: "within_tolerance (Fin 0)"
    by (simp_all add: is_finite_def within_tolerance_def)
  note t = status_rules[THEN conjunct1, rule_format, OF iteration_order_sorted_order,
      of ?b ?items "[]", unfolded rc act dif]
  from t[THEN conjunct1] fin obtain mr
    where mr: "match_bom_item sorted_order ?b (build_part_lookup ?items) [] = Inr mr"
    by blast
  from t[THEN conjunct2, rule_format, OF mr]
  have "actual_quantity (compare_result mr) = Fin 5
          \<and> difference (compare_result mr) = Fin 0
          \<and> status (compare_result mr) = OK_WITH_SUB
          \<and> remark (compare_result mr) = remark_use_sub @ asc ''2002''"
    by (simp add: c tol)
  with mr iteration_order_sorted_order show ?thesis by blast
qed

text \<open>
  Two inputs on which the rules as stated over the exact quantities fail. With BOM
  quantity \<open>5e-20\<close> and one matching record of quantity 0.001 the exact difference is
  smaller than 0.001, but the rounded difference is the double 0.001 itself, which is not
  below the tolerance: the status is \<open>NG_QTY_DIFF\<close>. With a matching record of infinite
  quantity no status is returned: formatting the difference raises.
\<close>

theorem status_rules_counterexample:
  "ListItem.quantity (ex_item ''1001'' 0.001) = Fin (1152921504606847 / 1152921504606846976)
   \<and> BOMItem.quantity (ex_bom ''1001'' (5 / 10 ^ 20) [])
       = Fin (2076918743413931 / 41538374868278621028243970633760768)
   \<and> \<bar>1152921504606847 / 1152921504606846976
        - 2076918743413931 / 41538374868278621028243970633760768\<bar> < (0.001 :: real)
   \<and> map_sum id (status \<circ> compare_result)
        (match_bom_item sorted_order (ex_bom ''1001'' (5 / 10 ^ 20) [])
           (build_part_lookup [ex_item ''1001'' 0.001]) [])
       = Inr NG_QTY_DIFF
   \<and> match_bom_item sorted_order (ex_bom ''1001'' 5 [])
        (build_part_lookup [(ex_item ''1001'' 5)\<lparr>ListItem.quantity := PInf\<rparr>]) []
       = Inl OverflowError"
  by (simp add: str_eval engine_eval trunc_real_def)

theorem representation_count_witness:
  "\<exists>all_res. compare_all_res sorted_order [ex_bom ''1001'' 5 [''2002'']]
                    [ex_item ''2002'' 5, ex_item ''9999'' 1, ex_item ''.0'' 7] [] = Inr all_res
          \<and> length all_res = 2
          \<and> map actual_quantity all_res = [Fin 5, Fin 1]
          \<and> map status all_res = [OK_WITH_SUB, NG_NOT_IN_BOM]
          \<and> source_count (ex_item ''2002'' 5) [ex_bom ''1001'' 5 [''2002'']]
               [ex_item ''2002'' 5, ex_item ''9999'' 1, ex_item ''.0'' 7] all_res = 1
          \<and> source_count (ex_item ''9999'' 1) [ex_bom ''1001'' 5 [''2002'']]
               [ex_item ''2002'' 5, ex_item ''9999'' 1, ex_item ''.0'' 7] all_res = 1
          \<and> source_count (ex_item ''.0'' 7) [ex_bom ''1001'' 5 [''2002'']]
               [ex_item ''2002'' 5, ex_item ''9999'' 1, ex_item ''.0'' 7] all_res = 0"
proof -
  let ?bom = "[ex_bom ''1001'' 5 [''2002'']]"
  let ?items = "[ex_item ''2002'' 5, ex_item ''9999'' 1, ex_item ''.0'' 7]"
  obtain all_res where r: "compare_all_res sorted_order ?bom ?items [] = Inr all_res"
    and l: "length all_res = 2"
    and a: "map actual_quantity all_res = [Fin 5, Fin 1]"
    and s: "map status all_res = [OK_WITH_SUB, NG_NOT_IN_BOM]"
    by (simp add: str_eval engine_eval all_res_eval)
  have c: "clean_part_number_str (ListItem.part_id (ex_item ''2002'' 5)) = asc ''2002''"
    "clean_part_number_str (ListItem.part_id (ex_item ''9999'' 1)) = asc ''9999''"
    "clean_part_number_str (ListItem.part_id (ex_item ''.0'' 7)) = []"
    by (simp_all add: str_eval ex_item_def)
  have n: "asc ''9999'' \<notin> bom_id_set ?bom" "asc ''2002'' \<in> bom_id_set ?bom"
    by (simp_all add: bom_id_set_def str_eval ex_bom_def)
  have f: "filter (\<lambda>b. asc ''9999'' \<in> set (bom_all_parts b)) ?bom = []"
    "filter (\<lambda>b. asc ''2002'' \<in> set (bom_all_parts b)) ?bom = ?bom"
    by (simp_all add: str_eval engine_eval)
  note g = representation_count[OF r]
  have ne: "cleans_nonempty (ex_item ''2002'' 5)" "cleans_nonempty (ex_item ''9999'' 1)"
    "\<not> cleans_nonempty (ex_item ''.0'' 7)"
    unfolding cleans_nonempty_def c by (simp_all add: asc_def)
  have 1: "source_count (ex_item ''2002'' 5) ?bom ?items all_res = 1"
    using g[THEN conjunct2, THEN conjunct2, THEN conjunct1, rule_format,
        of "ex_item ''2002'' 5", OF _ ne(1)]
    unfolding c f using n by simp
  have 2: "source_count (ex_item ''9999'' 1) ?bom ?items all_res = 1"
    using g[THEN conjunct2, THEN conjunct2, THEN conjunct1, rule_format,
        of "ex_item ''9999'' 1", OF _ ne(2)]
    unfolding c f using n by simp
  have 3: "source_count (ex_item ''.0'' 7) ?bom ?items all_res = 0"
    using g[THEN conjunct2, THEN conjunct2, THEN conjunct2, rule_format,
        of "ex_item ''.0'' 7", OF _ ne(3)]
    by simp
  have "compare_all_res sorted_order ?bom ?items [] = Inr all_res
          \<and> length all_res = 2
          \<and> map actual_quantity all_res = [Fin 5, Fin 1]
          \<and> map status all_res = [OK_WITH_SUB, NG_NOT_IN_BOM]
          \<and> source_count (ex_item ''2002'' 5) ?bom ?items all_res = 1
          \<and> source_count (ex_item ''9999'' 1) ?bom ?items all_res = 1
          \<and> source_count (ex_item ''.0'' 7) ?bom ?items all_res = 0"
    by (intro conjI) (fact r l a s 1 2 3)+
  then show ?thesis ..
qed

text \<open>
  Two BOM lines that share the substitute 2002 both count the checklist record with id
  2002, which is behind two output records, and the checklist record with id \<^verbatim>\<open>.0\<close>,
  which cleans to the empty string, is behind none: a checklist record is not always
  accounted for in exactly one output record.
\<close>

theorem representation_counterexample:
  "(case compare_all_res sorted_order
            [ex_bom ''1001'' 5 [''2002''], ex_bom ''3003'' 5 [''2002'']]
            [ex_item ''2002'' 5, ex_item ''.0'' 1] [] of
      Inl e \<Rightarrow> False
    | Inr all_res \<Rightarrow>
        map (\<lambda>r. (CompareResult.part_id r, actual_quantity r, status r)) all_res
          = [(asc ''1001'', Fin 5, OK_WITH_SUB), (asc ''3003'', Fin 5, OK_WITH_SUB)]
        \<and> source_count (ex_item ''2002'' 5)
            [ex_bom ''1001'' 5 [''2002''], ex_bom ''3003'' 5 [''2002'']]
            [ex_item ''2002'' 5, ex_item ''.0'' 1] all_res = 2
        \<and> source_count (ex_item ''.0'' 1)
            [ex_bom ''1001'' 5 [''2002''], ex_bom ''3003'' 5 [''2002'']]
            [ex_item ''2002'' 5, ex_item ''.0'' 1] all_res = 0)"
  by (simp add: str_eval engine_eval all_res_eval source_count_def record_sources_def
      contributing_records_def items_of_id_def)

text \<open>
  C3. The reverse pass emits, after the records of the BOM lines, exactly one record per
  distinct cleaned id that is not empty, is not a BOM id (main or substitute) and occurs
  in the checklist; each such record is \<open>NG_NOT_IN_BOM\<close> with BOM quantity 0, and its
  actual quantity and difference are the sum of the quantities of the checklist records
  with that id.
\<close>

theorem reverse_pass_groups:
  "(\<forall>all_res. compare_all_res h bom items wo = Inr all_res \<longrightarrow>
       drop (length bom) all_res = find_unmatched_list_items items (bom_all_loop bom {}) wo)
   \<and> distinct (map CompareResult.part_id (find_unmatched_list_items items (bom_all_loop bom {}) wo))
   \<and> set (map CompareResult.part_id (find_unmatched_list_items items (bom_all_loop bom {}) wo))
       = {p. p \<noteq> [] \<and> p \<notin> bom_id_set bom
             \<and> (\<exists>i\<in>set items. clean_part_number_str (ListItem.part_id i) = p)}
   \<and> (\<forall>r\<in>set (find_unmatched_list_items items (bom_all_loop bom {}) wo).
         status r = NG_NOT_IN_BOM \<and> bom_quantity r = Fin 0
         \<and> actual_quantity r
             = py_sum (map ListItem.quantity (items_of_id (CompareResult.part_id r) items))
         \<and> difference r = actual_quantity r)"
proof -
  let ?B = "bom_all_loop bom {}"
  note ex = find_unmatched_props[of items ?B wo]
  have B: "?B = bom_id_set bom - {[]}" by (simp add: bom_all_loop_eq)
  have 1: "drop (length bom) all_res = find_unmatched_list_items items ?B wo"
    if "compare_all_res h bom items wo = Inr all_res" for all_res
  proof -
    from that obtain brs where brs: "match_all h bom (build_part_lookup items) wo = Inr brs"
      and all: "all_res = brs @ find_unmatched_list_items items ?B wo"
      by (auto simp: compare_all_res_def Let_def split: sum.splits)
    show ?thesis using match_all_length[OF brs] by (simp add: all)
  qed
  have 2: "set (map CompareResult.part_id (find_unmatched_list_items items ?B wo))
       = {p. p \<noteq> [] \<and> p \<notin> bom_id_set bom
             \<and> (\<exists>i\<in>set items. clean_part_number_str (ListItem.part_id i) = p)}"
  proof -
    have "set (map CompareResult.part_id (find_unmatched_list_items items ?B wo))
            = {p. p \<noteq> [] \<and> p \<notin> ?B \<and> items_of_id p items \<noteq> []}"
      by (rule ex(2))
    also have "\<dots> = {p. p \<noteq> [] \<and> p \<notin> bom_id_set bom
             \<and> (\<exists>i\<in>set items. clean_part_number_str (ListItem.part_id i) = p)}"
      unfolding B items_of_id_nonempty by auto
    finally show ?thesis .
  qed
  have 3: "\<forall>r\<in>set (find_unmatched_list_items items ?B wo).
         status r = NG_NOT_IN_BOM \<and> bom_quantity r = Fin 0
         \<and> actual_quantity r
             = py_sum (map ListItem.quantity (items_of_id (CompareResult.part_id r) items))
         \<and> difference r = actual_quantity r"
    using ex(3) by blast
  show ?thesis using 1 2 3 ex(1) by blast
qed

theorem reverse_pass_groups_witness:
  "map (\<lambda>r. (CompareResult.part_id r, status r, bom_quantity r, actual_quantity r, difference r))
     (find_unmatched_list_items [ex_item ''9999'' 2, ex_item ''1001'' 5, ex_item ''9999'' 1]
        (bom_all_loop [ex_bom ''1001'' 5 [''2002'']] {}) [])
   = [(asc ''9999'', NG_NOT_IN_BOM, Fin 0, Fin 3, Fin 3)]"
proof -
  let ?items = "[ex_item ''9999'' 2, ex_item ''1001'' 5, ex_item ''9999'' 1]"
  let ?bom = "[ex_bom ''1001'' 5 [''2002'']]"
  let ?extra = "find_unmatched_list_items ?items (bom_all_loop ?bom {}) []"
  note t = reverse_pass_groups[of sorted_order ?bom ?items "[]"]
  have ids: "map CompareResult.part_id ?extra = [asc ''9999'']"
    by (simp add: str_eval engine_eval all_res_eval)
  then obtain r where r: "?extra = [r]" and p: "CompareResult.part_id r = asc ''9999''"
    by auto
  have s: "py_sum (map ListItem.quantity (items_of_id (asc ''9999'') ?items)) = Fin 3"
    by (simp add: items_of_id_def str_eval engine_eval)
  have "r \<in> set ?extra" unfolding r by simp
  with t have "status r = NG_NOT_IN_BOM \<and> bom_quantity r = Fin 0
      \<and> actual_quantity r
             = py_sum (map ListItem.quantity (items_of_id (CompareResult.part_id r) ?items))
      \<and> difference r = actual_quantity r"
    by blast
  then have "status r = NG_NOT_IN_BOM \<and> bom_quantity r = Fin 0
      \<and> actual_quantity r = Fin 3 \<and> difference r = Fin 3"
    unfolding p s by simp
  then show ?thesis unfolding r using p by simp
qed

text \<open>
  A checklist record whose id cleans to the empty string: its cleaned id is not a BOM id,
  yet the reverse pass emits no record for it.
\<close>

theorem reverse_pass_empty_id_counterexample:
  "clean_part_number_str (ListItem.part_id (ex_item ''.0'' 5)) \<notin> bom_id_set []
   \<and> find_unmatched_list_items [ex_item ''.0'' 5] (bom_all_loop [] {}) [] = []"
  by (simp add: bom_id_set_def str_eval engine_eval all_res_eval)

subsection \<open>Independence of the iteration order of sets\<close>

lemma sort_key_iteration_order:
  fixes f :: "'a \<Rightarrow> 'b::linorder"
  assumes "iteration_order h1" "iteration_order h2" "finite S" "inj f"
  shows "sort_key f (h1 S) = sort_key f (h2 S)"
proof -
  let ?u1 = "sort_key f (h1 S)" and ?u2 = "sort_key f (h2 S)"
  from assms(1,3) have s1: "set (h1 S) = S" "distinct (h1 S)"
    unfolding iteration_order_def by blast+
  from assms(2,3) have s2: "set (h2 S) = S" "distinct (h2 S)"
    unfolding iteration_order_def by blast+
  have inj: "inj_on f A" for A using assms(4) by (rule inj_on_subset) simp
  have a: "sorted (map f ?u1)" "sorted (map f ?u2)" by (rule sorted_sort_key)+
  have b: "distinct (map f ?u1)" using s1 inj by (simp add: distinct_map)
  have c: "distinct (map f ?u2)" using s2 inj by (simp add: distinct_map)
  have d: "set (map f ?u1) = set (map f ?u2)" using s1 s2 by simp
  have "map f ?u1 = map f ?u2"
    using a(1) b a(2) c d by (rule sorted_distinct_set_unique)
  then show ?thesis
    using assms(4) by (simp add: inj_map_eq_map)
qed

lemma merge_box_numbers_order:
  assumes "iteration_order h1" "iteration_order h2"
  shows "merge_box_numbers h1 bl = merge_box_numbers h2 bl"
proof -
  have "inj (\<lambda>x::ustring. (length x, x))" by (rule injI) simp
  then have "sort_key (\<lambda>x. (length x, x)) (h1 (set (filter (\<lambda>b. b \<noteq> []) bl)))
           = sort_key (\<lambda>x. (length x, x)) (h2 (set (filter (\<lambda>b. b \<noteq> []) bl)))"
    by (rule sort_key_iteration_order[OF assms finite_set])
  then show ?thesis unfolding merge_box_numbers_def by simp
qed

lemma merge_box_numbers_sorted:
  assumes "iteration_order h"
  shows "\<exists>u. sorted (map (\<lambda>x. (length x, x)) u) \<and> distinct u \<and> set u = set bl - {[]}
           \<and> merge_box_numbers h bl = (if u = [] then asc ''-'' else py_join (asc '', '') u)"
proof -
  let ?S = "set (filter (\<lambda>b. b \<noteq> []) bl)"
  let ?u = "sort_key (\<lambda>x. (length x, x)) (h ?S)"
  from assms have s: "set (h ?S) = ?S" "distinct (h ?S)"
    unfolding iteration_order_def by blast+
  have 1: "sorted (map (\<lambda>x. (length x, x)) ?u)" by (rule sorted_sort_key)
  have 2: "distinct ?u" by (simp only: distinct_sort s(2))
  have "set ?u = ?S" by (simp only: set_sort s(1))
  also have "?S = set bl - {[]}" by auto
  finally have 3: "set ?u = set bl - {[]}" .
  have 4: "merge_box_numbers h bl = (if ?u = [] then asc ''-'' else py_join (asc '', '') ?u)"
  proof (cases "bl = []")
    case True
    then have "set (h ?S) = {}" using s(1) by simp
    then have "h ?S = []" by simp
    then have "?u = []" by simp
    then show ?thesis unfolding merge_box_numbers_def Let_def using True by simp
  next
    case False
    then show ?thesis unfolding merge_box_numbers_def Let_def by (simp only: if_False)
  qed
  from 1 2 3 4 show ?thesis by blast
qed

lemma match_bom_item_orders:
  assumes "iteration_order h1" "iteration_order h2"
  shows "map_sum id (strip_subs \<circ> compare_result) (match_bom_item h1 b lookup wo)
       = map_sum id (strip_subs \<circ> compare_result) (match_bom_item h2 b lookup wo)"
proof -
  let ?ms = "{p \<in> set (bom_substitutes b). map_of lookup p \<noteq> None}"
  have "inj (\<lambda>x::ustring. x)" by simp
  then have s: "sort_key (\<lambda>x. x) (h1 ?ms) = sort_key (\<lambda>x. x) (h2 ?ms)"
    by (rule sort_key_iteration_order[OF assms finite_matched_subs])
  show ?thesis
    unfolding match_bom_item_def Let_def match_loop_start prod.case s
    by (simp add: strip_subs_def split: sum.splits prod.splits)
qed

lemma match_all_orders:
  assumes "iteration_order h1" "iteration_order h2"
  shows "map_sum id (map strip_subs) (match_all h1 bom lookup wo)
       = map_sum id (map strip_subs) (match_all h2 bom lookup wo)"
proof (induction bom)
  case Nil
  then show ?case by simp
next
  case (Cons b bom)
  from match_bom_item_orders[OF assms, of b lookup wo] Cons.IH
  show ?case by (auto split: sum.splits)
qed

lemma iteration_order_rev_sorted_order: "iteration_order rev_sorted_order"
  by (simp add: iteration_order_def rev_sorted_order_def)

lemma compare_all_res_orders:
  assumes "iteration_order h1" "iteration_order h2"
  shows "map_sum id (map strip_subs) (compare_all_res h1 bom items wo)
       = map_sum id (map strip_subs) (compare_all_res h2 bom items wo)"
  using match_all_orders[OF assms, of bom "build_part_lookup items" wo]
  unfolding compare_all_res_def Let_def by (auto split: sum.splits)

lemma make_row_strip: "make_row h (strip_subs r) = make_row h r"
proof -
  have f: "bom_quantity (strip_subs r) = bom_quantity r"
    "actual_quantity (strip_subs r) = actual_quantity r"
    "difference (strip_subs r) = difference r"
    "work_order (strip_subs r) = work_order r"
    "CompareResult.part_id (strip_subs r) = CompareResult.part_id r"
    "part_name (strip_subs r) = part_name r"
    "status (strip_subs r) = status r"
    "box_sources (strip_subs r) = box_sources r"
    "remark (strip_subs r) = remark r"
    by (simp_all add: strip_subs_def)
  show ?thesis unfolding make_row_def f by (rule refl)
qed

lemma make_rows_orders:
  assumes "iteration_order h1" "iteration_order h2"
  shows "map strip_subs rs1 = map strip_subs rs2 \<Longrightarrow> make_rows h1 rs1 = make_rows h2 rs2"
proof (induction rs1 arbitrary: rs2)
  case Nil
  then show ?case by simp
next
  case (Cons r rs1)
  then obtain r' rs2' where rs2: "rs2 = r' # rs2'" and r: "strip_subs r = strip_subs r'"
    and rest: "map strip_subs rs1 = map strip_subs rs2'"
    by (cases rs2) auto
  have "make_row h1 r = make_row h1 (strip_subs r')" using make_row_strip[of h1 r] r by simp
  also have "\<dots> = make_row h1 r'" by (rule make_row_strip)
  also have "\<dots> = make_row h2 r'"
    unfolding make_row_def merge_box_numbers_order[OF assms] by (rule refl)
  finally have row: "make_row h1 r = make_row h2 r'" .
  show ?case unfolding rs2 make_rows.simps row Cons.IH[OF rest] by (rule refl)
qed

lemma count_where_strip:
  assumes "\<And>r. P (strip_subs r) = P r" "map strip_subs rs1 = map strip_subs rs2"
  shows "count_where P rs1 = count_where P rs2"
proof -
  have "count_where P rs = count_where P (map strip_subs rs)" for rs
    unfolding count_where_def by (induction rs) (simp_all add: assms(1))
  then show ?thesis using assms(2) by metis
qed

lemma make_stats_strip:
  assumes "map strip_subs rs1 = map strip_subs rs2"
  shows "make_stats rs1 n lbl = make_stats rs2 n lbl"
proof -
  have l: "length rs1 = length rs2" using assms by (metis length_map)
  have s: "status (strip_subs r) = status r" for r by (simp add: strip_subs_def)
  have c: "count_where is_pass rs1 = count_where is_pass rs2"
          "count_where is_ng rs1 = count_where is_ng rs2"
          "count_where (\<lambda>r. status r = st) rs1 = count_where (\<lambda>r. status r = st) rs2" for st
    by (rule count_where_strip[OF _ assms]; simp add: is_pass_def is_ng_def s)+
  show ?thesis unfolding make_stats_def Let_def l c by (rule refl)
qed

lemma compare_bom_and_list_orders:
  assumes "iteration_order h1" "iteration_order h2"
  shows "compare_bom_and_list h1 bom items lbl wo = compare_bom_and_list h2 bom items lbl wo"
proof (cases "compare_all_res h1 bom items wo")
  case (Inl e)
  with compare_all_res_orders[OF assms, of bom items wo]
  have "compare_all_res h2 bom items wo = Inl e"
    by (cases "compare_all_res h2 bom items wo") auto
  with Inl show ?thesis by (simp add: compare_bom_and_list_def)
next
  case (Inr rs1)
  with compare_all_res_orders[OF assms, of bom items wo]
  obtain rs2 where r2: "compare_all_res h2 bom items wo = Inr rs2"
    and eq: "map strip_subs rs1 = map strip_subs rs2"
    by (cases "compare_all_res h2 bom items wo") auto
  show ?thesis
    unfolding compare_bom_and_list_def Inr r2 sum.case
      make_rows_orders[OF assms eq] make_stats_strip[OF eq] by (rule refl)
qed

text \<open>
  C4. Two runs on the same BOM and checklist, whatever the orders \<open>h1\<close> and \<open>h2\<close> in
  which they iterate over their sets, return the same rows in the same order and the same
  statistics (or raise the same exception). The box listing of a row is the list of its
  distinct non-empty labels sorted by (length, text), and the substitute listing of a
  remark is the sorted list of the contributing substitute ids.
\<close>

theorem output_deterministic:
  assumes "iteration_order h1" and "iteration_order h2"
  shows "compare_bom_and_list h1 bom items lbl wo = compare_bom_and_list h2 bom items lbl wo
    \<and> (\<forall>bl. \<exists>u. sorted (map (\<lambda>x. (length x, x)) u) \<and> distinct u \<and> set u = set bl - {[]}
           \<and> merge_box_numbers h1 bl = (if u = [] then asc ''-'' else py_join (asc '', '') u))
    \<and> (\<forall>b mr. match_bom_item h1 b (build_part_lookup items) wo = Inr mr
           \<longrightarrow> status (compare_result mr) = OK_WITH_SUB
           \<longrightarrow> remark (compare_result mr) = remark_use_sub
                 @ py_join (asc '', '') (sorted_list_of_set (contributing_substitutes b items)))"
  using compare_bom_and_list_orders[OF assms] merge_box_numbers_sorted[OF assms(1)]
    status_rules_general(2)[OF assms(1)]
  by blast

theorem output_deterministic_witness:
  "iteration_order sorted_order \<and> iteration_order rev_sorted_order
   \<and> sorted_order {asc ''2002'', asc ''3003''} \<noteq> rev_sorted_order {asc ''2002'', asc ''3003''}
   \<and> compare_bom_and_list sorted_order [ex_bom ''1001'' 5 [''3003'', ''2002'']]
        [ex_boxed ''3003'' 3 (asc ''10'' @ [21495, 31665]), ex_boxed ''2002'' 2 (asc ''2'' @ [21495, 31665])]
        [] []
     = compare_bom_and_list rev_sorted_order [ex_bom ''1001'' 5 [''3003'', ''2002'']]
        [ex_boxed ''3003'' 3 (asc ''10'' @ [21495, 31665]), ex_boxed ''2002'' 2 (asc ''2'' @ [21495, 31665])]
        [] []"
proof -
  have d: "sorted_order {asc ''2002'', asc ''3003''} \<noteq> rev_sorted_order {asc ''2002'', asc ''3003''}"
    by (simp add: sorted_order_def rev_sorted_order_def asc_def)
  from output_deterministic[OF iteration_order_sorted_order iteration_order_rev_sorted_order]
    iteration_order_sorted_order iteration_order_rev_sorted_order d
  show ?thesis by blast
qed

lemma deterministic_example: "map_sum id (\<lambda>(rows, st). map (\<lambda>r. (col_box_sources r, col_remark r)) rows) (compare_bom_and_list rev_sorted_order [ex_bom ''1001'' 5 [''3003'', ''2002'']]
        [ex_boxed ''3003'' 3 (asc ''10'' @ [21495, 31665]), ex_boxed ''2002'' 2 (asc ''2'' @ [21495, 31665])]
        [] []) = Inr [(asc ''2'' @ [21495, 31665] @ asc '', 10'' @ [21495, 31665], remark_use_sub @ asc ''2002, 3003'')]"
  by (simp add: str_eval engine_eval all_res_eval compare_bom_and_list_def make_row_def rev_sorted_order_def ex_boxed_def merge_box_numbers_def trunc_real_def str_int_def)

end
